theory Spec2Isabelle
  imports Complex_Main "HOL-Library.Word"
begin

section \<open>Rational Bernstein shape functions of libMesh (1D and 3D)\<close>

text \<open>
  The two source files \<^verbatim>\<open>src/fe/fe_rational_shape_1D.C\<close> and
  \<^verbatim>\<open>src/fe/fe_rational_shape_3D.C\<close> specialise the class template \<^verbatim>\<open>FE\<close> for the
  family \<^verbatim>\<open>RATIONAL_BERNSTEIN\<close> in one and three dimensions. Every function reads the
  weights of the element's nodes, asks \<^verbatim>\<open>FEInterface\<close> for the values (and derivatives) of the
  underlying Bernstein basis, accumulates weighted sums in one loop and returns a quotient.

  Conventions of the embedding.
  \<^item> \<^verbatim>\<open>Real\<close> is libMesh's configurable floating-point type. The functions \<open>FE1_shape\<close>,
    \<open>FE3_shape\<close> and those of the derivatives model it by the real numbers: they say which
    expression a call returns, without rounding and overflow. A division whose divisor is zero
    does not produce a real number in the program (it produces an infinity or a NaN): the model
    returns \<open>None\<close> there instead of HOL's \<open>x / 0 = 0\<close>. \<open>FE1_shape_double\<close> is
    \<^verbatim>\<open>shape\<close> once more with \<^verbatim>\<open>Real\<close> as IEEE double precision (the default
    configuration), every operation rounded to the nearest double, for the statements in
    which rounding matters.
  \<^item> \<^verbatim>\<open>libmesh_error_msg\<close> and \<^verbatim>\<open>libmesh_error\<close> throw; \<^verbatim>\<open>libmesh_assert\<close> and
    \<^verbatim>\<open>libmesh_assert_equal_to\<close> are modelled as checked, failing with \<open>Libmesh_assert\<close>.
    Builds configured without assertions skip these checks; every theorem below about a
    returned value assumes the asserted conditions, so it describes both kinds of build.
  \<^item> \<^verbatim>\<open>Elem\<close>, \<^verbatim>\<open>Node\<close>, \<^verbatim>\<open>Point\<close>, \<^verbatim>\<open>FEType\<close> and \<^verbatim>\<open>FEInterface\<close> are declared
    outside the two files. They are modelled by records holding exactly the members the two
    files use; \<^verbatim>\<open>FEInterface\<close> is a parameter of every function.
  \<^item> \<^verbatim>\<open>unsigned int\<close> counters and indices are natural numbers (the only arithmetic on them is
    the loop increment below the loop bound); \<^verbatim>\<open>p_level\<close> is a 32-bit word because it is
    multiplied and converted to \<^verbatim>\<open>int\<close>.
\<close>

subsection \<open>Data\<close>

type_synonym Real = real

type_synonym Point = "Real \<times> Real \<times> Real"

type_synonym Order = int

type_synonym ElemType = int

datatype FEFamily = BERNSTEIN | RATIONAL_BERNSTEIN

record FEType =
  order :: Order
  family :: FEFamily

record Node =
  get_extra_datum :: "nat \<Rightarrow> Real"

record Elem =
  p_level :: "32 word"
  n_nodes :: nat
  mapping_data :: nat
  node_ref :: "nat \<Rightarrow> Node"

record FEInterface =
  n_shape_functions :: "FEType \<Rightarrow> int \<Rightarrow> Elem \<Rightarrow> nat"
  shape :: "FEType \<Rightarrow> int \<Rightarrow> Elem \<Rightarrow> nat \<Rightarrow> Point \<Rightarrow> Real"
  shape_deriv :: "FEType \<Rightarrow> int \<Rightarrow> Elem \<Rightarrow> nat \<Rightarrow> nat \<Rightarrow> Point \<Rightarrow> Real"
  shape_second_deriv :: "FEType \<Rightarrow> int \<Rightarrow> Elem \<Rightarrow> nat \<Rightarrow> nat \<Rightarrow> Point \<Rightarrow> Real"

datatype error =
  Libmesh_error_msg string
| Libmesh_error
| Libmesh_assert

text \<open>The outcome of a call: an error, or the \<^verbatim>\<open>Real\<close> returned (\<open>None\<close> when a division
  by zero made it an infinity or a NaN).\<close>

type_synonym result = "error + Real option"

definition underlying_fe_family :: FEFamily where
  "underlying_fe_family = BERNSTEIN"

text \<open>The text passed to \<^verbatim>\<open>libmesh_error_msg\<close> by every overload that takes an
  \<^verbatim>\<open>ElemType\<close>.\<close>

definition real_element_msg :: string where
  "real_element_msg =
     ''Rational bases require the real element '' @ [CHR 0x0A] @ ''to query nodal weighting.''"

subsection \<open>Arithmetic and loops\<close>

definition Real_div :: "Real \<Rightarrow> Real \<Rightarrow> Real option" where
  "Real_div a b = (if b = 0 then None else Some (a / b))"

text \<open>\<open>a / b\<close> where \<open>a\<close> is itself the outcome of a division.\<close>

definition Real_div_opt :: "Real option \<Rightarrow> Real \<Rightarrow> Real option" where
  "Real_div_opt a b = (case a of None \<Rightarrow> None | Some x \<Rightarrow> Real_div x b)"

text \<open>\<^verbatim>\<open>for (unsigned int sf=0; sf<n; sf++) body\<close>, threading the local variables.\<close>

definition for_loop :: "nat \<Rightarrow> (nat \<Rightarrow> 's \<Rightarrow> 's) \<Rightarrow> 's \<Rightarrow> 's" where
  "for_loop n body s = fold body [0..<n] s"

text \<open>\<^verbatim>\<open>int extra_order = add_p_level * elem->p_level();\<close>\<close>

definition extra_order_of :: "bool \<Rightarrow> Elem \<Rightarrow> int" where
  "extra_order_of add_p_level elem = sint (of_bool add_p_level * p_level elem)"

text \<open>The vector \<^verbatim>\<open>node_weights\<close>, filled by the loop over the nodes.\<close>

definition node_weights_of :: "Elem \<Rightarrow> Real list" where
  "node_weights_of elem =
     (let n_nodes = n_nodes elem;
          datum_index = mapping_data elem
      in map (\<lambda>n. get_extra_datum (node_ref elem n) datum_index) [0..<n_nodes])"

subsection \<open>Overloads taking an element type\<close>

definition FE1_shape_ElemType :: "ElemType \<Rightarrow> Order \<Rightarrow> nat \<Rightarrow> Point \<Rightarrow> result" where
  "FE1_shape_ElemType t ord i p = Inl (Libmesh_error_msg real_element_msg)"

definition FE1_shape_deriv_ElemType ::
  "ElemType \<Rightarrow> Order \<Rightarrow> nat \<Rightarrow> nat \<Rightarrow> Point \<Rightarrow> result" where
  "FE1_shape_deriv_ElemType t ord i j p = Inl (Libmesh_error_msg real_element_msg)"

definition FE1_shape_second_deriv_ElemType ::
  "ElemType \<Rightarrow> Order \<Rightarrow> nat \<Rightarrow> nat \<Rightarrow> Point \<Rightarrow> result" where
  "FE1_shape_second_deriv_ElemType t ord i j p = Inl (Libmesh_error_msg real_element_msg)"

definition FE3_shape_ElemType :: "ElemType \<Rightarrow> Order \<Rightarrow> nat \<Rightarrow> Point \<Rightarrow> result" where
  "FE3_shape_ElemType t ord i p = Inl (Libmesh_error_msg real_element_msg)"

definition FE3_shape_deriv_ElemType ::
  "ElemType \<Rightarrow> Order \<Rightarrow> nat \<Rightarrow> nat \<Rightarrow> Point \<Rightarrow> result" where
  "FE3_shape_deriv_ElemType t ord i j p = Inl (Libmesh_error_msg real_element_msg)"

definition FE3_shape_second_deriv_ElemType ::
  "ElemType \<Rightarrow> Order \<Rightarrow> nat \<Rightarrow> nat \<Rightarrow> Point \<Rightarrow> result" where
  "FE3_shape_second_deriv_ElemType t ord i j p = Inl (Libmesh_error_msg real_element_msg)"

subsection \<open>Value\<close>

text \<open>The body of the loop of \<^verbatim>\<open>shape\<close>, the same text in both files. \<open>N sf\<close> stands for
  \<^verbatim>\<open>FEInterface::shape(fe_type, extra_order, elem, sf, p)\<close>.\<close>

definition shape_body ::
  "Real list \<Rightarrow> (nat \<Rightarrow> Real) \<Rightarrow> nat \<Rightarrow> nat \<Rightarrow> Real \<times> Real \<Rightarrow> Real \<times> Real" where
  "shape_body node_weights N i sf =
     (\<lambda>(weighted_shape_i, weighted_sum).
        let weighted_shape = node_weights ! sf * N sf;
            weighted_sum = weighted_sum + weighted_shape;
            weighted_shape_i = (if sf = i then weighted_shape else weighted_shape_i)
        in (weighted_shape_i, weighted_sum))"

definition FE1_shape ::
  "FEInterface \<Rightarrow> Elem option \<Rightarrow> Order \<Rightarrow> nat \<Rightarrow> Point \<Rightarrow> bool \<Rightarrow> result" where
  "FE1_shape fe elem ord i p add_p_level =
     (case elem of
        None \<Rightarrow> Inl Libmesh_assert
      | Some el \<Rightarrow>
          let extra_order = extra_order_of add_p_level el;
              fe_type = \<lparr>order = ord, family = underlying_fe_family\<rparr>;
              n_sf = n_shape_functions fe fe_type extra_order el;
              n_nodes = n_nodes el
          in if n_sf \<noteq> n_nodes then Inl Libmesh_assert
             else
               let node_weights = node_weights_of el;
                   (weighted_shape_i, weighted_sum) =
                     for_loop n_sf
                       (shape_body node_weights (\<lambda>sf. shape fe fe_type extra_order el sf p) i)
                       (0, 0)
               in Inr (Real_div weighted_shape_i weighted_sum))"

definition FE3_shape ::
  "FEInterface \<Rightarrow> Elem option \<Rightarrow> Order \<Rightarrow> nat \<Rightarrow> Point \<Rightarrow> bool \<Rightarrow> result" where
  "FE3_shape fe elem ord i p add_p_level =
     (case elem of
        None \<Rightarrow> Inl Libmesh_assert
      | Some el \<Rightarrow>
          let extra_order = extra_order_of add_p_level el;
              fe_type = \<lparr>order = ord, family = underlying_fe_family\<rparr>;
              n_sf = n_shape_functions fe fe_type extra_order el;
              n_nodes = n_nodes el
          in if n_sf \<noteq> n_nodes then Inl Libmesh_assert
             else
               let node_weights = node_weights_of el;
                   (weighted_shape_i, weighted_sum) =
                     for_loop n_sf
                       (shape_body node_weights (\<lambda>sf. shape fe fe_type extra_order el sf p) i)
                       (0, 0)
               in Inr (Real_div weighted_shape_i weighted_sum))"

subsection \<open>Value, in double precision\<close>

text \<open>The exponent \<open>e\<close> of a positive real \<open>x\<close>, with \<open>2\<^sup>e \<le> x < 2\<^sup>e\<^sup>+\<^sup>1\<close> (lemma
  \<open>binade_bounds\<close> below); \<open>0\<close> for the other reals.\<close>

function binade :: "real \<Rightarrow> int" where
  "binade x = (if 2 \<le> x then binade (x / 2) + 1
               else if 0 < x \<and> x < 1 then binade (2 * x) - 1
               else 0)"
  by pat_completeness auto
termination
proof (relation "measure (\<lambda>x. nat \<bar>\<lfloor>log 2 x\<rfloor>\<bar>)")
  show "wf (measure (\<lambda>x. nat \<bar>\<lfloor>log 2 x\<rfloor>\<bar>))" by simp
next
  fix x :: real
  assume x: "2 \<le> x"
  then have "log 2 (x / 2) = log 2 x - 1"
    by (simp add: log_divide)
  moreover have "1 \<le> log 2 x"
    using x by (simp add: le_log_iff)
  ultimately show "(x / 2, x) \<in> measure (\<lambda>x. nat \<bar>\<lfloor>log 2 x\<rfloor>\<bar>)"
    by (simp add: le_floor_iff)
next
  fix x :: real
  assume "\<not> 2 \<le> x" and x: "0 < x \<and> x < 1"
  then have "log 2 (2 * x) = log 2 x + 1"
    by (simp add: log_mult)
  then have fl: "\<lfloor>log 2 (2 * x)\<rfloor> = \<lfloor>log 2 x\<rfloor> + 1"
    by simp
  have neg: "\<lfloor>log 2 x\<rfloor> \<le> - 1"
    using x by (simp add: floor_le_iff)
  show "(2 * x, x) \<in> measure (\<lambda>x. nat \<bar>\<lfloor>log 2 x\<rfloor>\<bar>)"
    unfolding in_measure fl using neg by linarith
qed

declare binade.simps [simp del]

text \<open>Rounding to the nearest integer, ties to the even one, and rounding of a real to the
  nearest double: 53 significant bits, the spacing of the subnormal numbers below
  \<open>2\<^sup>-\<^sup>1\<^sup>0\<^sup>2\<^sup>2\<close>, and no finite result from \<open>2\<^sup>1\<^sup>0\<^sup>2\<^sup>4\<close> on. \<open>None\<close> stands for an operation
  that left the finite doubles (an overflow or a division by zero); the model does not
  follow the infinities and NaNs of the program any further.\<close>

definition round_half_even :: "real \<Rightarrow> int" where
  "round_half_even x =
     (let f = \<lfloor>x\<rfloor>; r = x - of_int f
      in if r < 1 / 2 then f else if 1 / 2 < r then f + 1 else if even f then f else f + 1)"

definition double_round :: "Real \<Rightarrow> Real option" where
  "double_round x =
     (let e = max (binade \<bar>x\<bar>) (- 1022);
          ulp = 2 powi (e - 52);
          y = sgn x * of_int (round_half_even (\<bar>x\<bar> / ulp)) * ulp
      in if 2 powi 1024 \<le> \<bar>y\<bar> then None else Some y)"

definition double_mult :: "Real \<Rightarrow> Real \<Rightarrow> Real option" where
  "double_mult a b = double_round (a * b)"

definition double_add :: "Real \<Rightarrow> Real \<Rightarrow> Real option" where
  "double_add a b = double_round (a + b)"

definition double_div :: "Real \<Rightarrow> Real \<Rightarrow> Real option" where
  "double_div a b = (if b = 0 then None else double_round (a / b))"

text \<open>The loop body and the function \<^verbatim>\<open>shape\<close> of the one-dimensional file, with the
  product, the sum and the quotient rounded. The weights and the values that
  \<^verbatim>\<open>FEInterface\<close> reports are doubles in the program.\<close>

definition shape_body_double ::
  "Real list \<Rightarrow> (nat \<Rightarrow> Real) \<Rightarrow> nat \<Rightarrow> nat \<Rightarrow> (Real \<times> Real) option \<Rightarrow> (Real \<times> Real) option" where
  "shape_body_double node_weights Nval i sf locals =
     (case locals of
        None \<Rightarrow> None
      | Some (weighted_shape_i, weighted_sum) \<Rightarrow>
          (case double_mult (node_weights ! sf) (Nval sf) of
             None \<Rightarrow> None
           | Some weighted_shape \<Rightarrow>
               (case double_add weighted_sum weighted_shape of
                  None \<Rightarrow> None
                | Some weighted_sum \<Rightarrow>
                    Some (if sf = i then weighted_shape else weighted_shape_i, weighted_sum))))"

definition FE1_shape_double ::
  "FEInterface \<Rightarrow> Elem option \<Rightarrow> Order \<Rightarrow> nat \<Rightarrow> Point \<Rightarrow> bool \<Rightarrow> result" where
  "FE1_shape_double fe elem ord i p add_p_level =
     (case elem of
        None \<Rightarrow> Inl Libmesh_assert
      | Some el \<Rightarrow>
          let extra_order = extra_order_of add_p_level el;
              fe_type = \<lparr>order = ord, family = underlying_fe_family\<rparr>;
              n_sf = n_shape_functions fe fe_type extra_order el;
              n_nodes = n_nodes el
          in if n_sf \<noteq> n_nodes then Inl Libmesh_assert
             else
               let node_weights = node_weights_of el
               in case for_loop n_sf
                         (shape_body_double node_weights
                            (\<lambda>sf. shape fe fe_type extra_order el sf p) i)
                         (Some (0, 0)) of
                    None \<Rightarrow> Inr None
                  | Some (weighted_shape_i, weighted_sum) \<Rightarrow>
                      Inr (double_div weighted_shape_i weighted_sum))"

text \<open>The sum of a list of doubles, added from left to right in double precision.\<close>

definition double_sum :: "Real list \<Rightarrow> Real option" where
  "double_sum vs =
     fold (\<lambda>v total. case total of None \<Rightarrow> None | Some s \<Rightarrow> double_add s v) vs (Some 0)"

subsection \<open>First derivative\<close>

text \<open>The body of the loop of \<^verbatim>\<open>shape_deriv\<close>. \<open>dN sf\<close> stands for
  \<^verbatim>\<open>FEInterface::shape_deriv(fe_type, extra_order, elem, sf, 0, p)\<close> in one dimension and for
  the same call with \<^verbatim>\<open>j\<close> in place of \<^verbatim>\<open>0\<close> in three.\<close>

definition shape_deriv_body ::
  "Real list \<Rightarrow> (nat \<Rightarrow> Real) \<Rightarrow> (nat \<Rightarrow> Real) \<Rightarrow> nat \<Rightarrow> nat \<Rightarrow>
     Real \<times> Real \<times> Real \<times> Real \<Rightarrow> Real \<times> Real \<times> Real \<times> Real" where
  "shape_deriv_body node_weights N dN i sf =
     (\<lambda>(weighted_shape_i, weighted_sum, weighted_grad_i, weighted_grad_sum).
        let weighted_shape = node_weights ! sf * N sf;
            weighted_grad = node_weights ! sf * dN sf;
            weighted_sum = weighted_sum + weighted_shape;
            weighted_grad_sum = weighted_grad_sum + weighted_grad
        in if sf = i
           then (weighted_shape, weighted_sum, weighted_grad, weighted_grad_sum)
           else (weighted_shape_i, weighted_sum, weighted_grad_i, weighted_grad_sum))"

definition FE1_shape_deriv ::
  "FEInterface \<Rightarrow> Elem option \<Rightarrow> Order \<Rightarrow> nat \<Rightarrow> nat \<Rightarrow> Point \<Rightarrow> bool \<Rightarrow> result" where
  "FE1_shape_deriv fe elem ord i j p add_p_level =
     (if j \<noteq> 0 then Inl Libmesh_assert
      else case elem of
        None \<Rightarrow> Inl Libmesh_assert
      | Some el \<Rightarrow>
          let extra_order = extra_order_of add_p_level el;
              fe_type = \<lparr>order = ord, family = underlying_fe_family\<rparr>;
              n_sf = n_shape_functions fe fe_type extra_order el;
              n_nodes = n_nodes el
          in if n_sf \<noteq> n_nodes then Inl Libmesh_assert
             else
               let node_weights = node_weights_of el;
                   (weighted_shape_i, weighted_sum, weighted_grad_i, weighted_grad_sum) =
                     for_loop n_sf
                       (shape_deriv_body node_weights
                          (\<lambda>sf. shape fe fe_type extra_order el sf p)
                          (\<lambda>sf. shape_deriv fe fe_type extra_order el sf 0 p) i)
                       (0, 0, 0, 0)
               in Inr (Real_div_opt
                        (Real_div
                           (weighted_sum * weighted_grad_i - weighted_shape_i * weighted_grad_sum)
                           weighted_sum)
                        weighted_sum))"

definition FE3_shape_deriv ::
  "FEInterface \<Rightarrow> Elem option \<Rightarrow> Order \<Rightarrow> nat \<Rightarrow> nat \<Rightarrow> Point \<Rightarrow> bool \<Rightarrow> result" where
  "FE3_shape_deriv fe elem ord i j p add_p_level =
     (case elem of
        None \<Rightarrow> Inl Libmesh_assert
      | Some el \<Rightarrow>
          let extra_order = extra_order_of add_p_level el;
              fe_type = \<lparr>order = ord, family = underlying_fe_family\<rparr>;
              n_sf = n_shape_functions fe fe_type extra_order el;
              n_nodes = n_nodes el
          in if n_sf \<noteq> n_nodes then Inl Libmesh_assert
             else
               let node_weights = node_weights_of el;
                   (weighted_shape_i, weighted_sum, weighted_grad_i, weighted_grad_sum) =
                     for_loop n_sf
                       (shape_deriv_body node_weights
                          (\<lambda>sf. shape fe fe_type extra_order el sf p)
                          (\<lambda>sf. shape_deriv fe fe_type extra_order el sf j p) i)
                       (0, 0, 0, 0)
               in Inr (Real_div_opt
                        (Real_div
                           (weighted_sum * weighted_grad_i - weighted_shape_i * weighted_grad_sum)
                           weighted_sum)
                        weighted_sum))"

subsection \<open>Second derivative, one dimension\<close>

text \<open>\<open>d2N sf\<close> stands for
  \<^verbatim>\<open>FEInterface::shape_second_deriv(fe_type, extra_order, elem, sf, 0, p)\<close>.\<close>

definition shape_second_deriv_body_1D ::
  "Real list \<Rightarrow> (nat \<Rightarrow> Real) \<Rightarrow> (nat \<Rightarrow> Real) \<Rightarrow> (nat \<Rightarrow> Real) \<Rightarrow> nat \<Rightarrow> nat \<Rightarrow>
     Real \<times> Real \<times> Real \<times> Real \<times> Real \<times> Real \<Rightarrow> Real \<times> Real \<times> Real \<times> Real \<times> Real \<times> Real" where
  "shape_second_deriv_body_1D node_weights N dN d2N i sf =
     (\<lambda>(weighted_shape_i, weighted_sum, weighted_grad_i, weighted_grad_sum,
         weighted_hess_i, weighted_hess_sum).
        let weighted_shape = node_weights ! sf * N sf;
            weighted_grad = node_weights ! sf * dN sf;
            weighted_hess = node_weights ! sf * d2N sf;
            weighted_sum = weighted_sum + weighted_shape;
            weighted_grad_sum = weighted_grad_sum + weighted_grad;
            weighted_hess_sum = weighted_hess_sum + weighted_hess
        in if sf = i
           then (weighted_shape, weighted_sum, weighted_grad, weighted_grad_sum,
                 weighted_hess, weighted_hess_sum)
           else (weighted_shape_i, weighted_sum, weighted_grad_i, weighted_grad_sum,
                 weighted_hess_i, weighted_hess_sum))"

definition FE1_shape_second_deriv ::
  "FEInterface \<Rightarrow> Elem option \<Rightarrow> Order \<Rightarrow> nat \<Rightarrow> nat \<Rightarrow> Point \<Rightarrow> bool \<Rightarrow> result" where
  "FE1_shape_second_deriv fe elem ord i j p add_p_level =
     (if j \<noteq> 0 then Inl Libmesh_assert
      else case elem of
        None \<Rightarrow> Inl Libmesh_assert
      | Some el \<Rightarrow>
          let extra_order = extra_order_of add_p_level el;
              fe_type = \<lparr>order = ord, family = underlying_fe_family\<rparr>;
              n_sf = n_shape_functions fe fe_type extra_order el;
              n_nodes = n_nodes el
          in if n_sf \<noteq> n_nodes then Inl Libmesh_assert
             else
               let node_weights = node_weights_of el;
                   (weighted_shape_i, weighted_sum, weighted_grad_i, weighted_grad_sum,
                    weighted_hess_i, weighted_hess_sum) =
                     for_loop n_sf
                       (shape_second_deriv_body_1D node_weights
                          (\<lambda>sf. shape fe fe_type extra_order el sf p)
                          (\<lambda>sf. shape_deriv fe fe_type extra_order el sf 0 p)
                          (\<lambda>sf. shape_second_deriv fe fe_type extra_order el sf 0 p) i)
                       (0, 0, 0, 0, 0, 0)
               in Inr (Real_div
                        (weighted_sum * weighted_sum *
                           (weighted_sum * weighted_hess_i - weighted_shape_i * weighted_hess_sum) -
                         (weighted_sum * weighted_grad_i - weighted_shape_i * weighted_grad_sum) *
                           2 * weighted_sum * weighted_grad_sum)
                        (weighted_sum * weighted_sum * weighted_sum * weighted_sum)))"

subsection \<open>Second derivative, three dimensions\<close>

text \<open>The \<^verbatim>\<open>switch\<close> on \<^verbatim>\<open>j\<close> that sets \<^verbatim>\<open>j1\<close> and \<^verbatim>\<open>j2\<close>; its \<^verbatim>\<open>default\<close> branch
  calls \<^verbatim>\<open>libmesh_error()\<close>.\<close>

definition second_deriv_switch :: "nat \<Rightarrow> error + nat \<times> nat" where
  "second_deriv_switch j =
     (if j = 0 then Inr (0, 0)
      else if j = 1 then Inr (0, 1)
      else if j = 2 then Inr (1, 1)
      else if j = 3 then Inr (0, 2)
      else if j = 4 then Inr (1, 2)
      else if j = 5 then Inr (2, 2)
      else Inl Libmesh_error)"

text \<open>The body of the loop. \<open>dN d sf\<close> stands for
  \<^verbatim>\<open>FEInterface::shape_deriv(fe_type, extra_order, elem, sf, d, p)\<close> and \<open>d2N sf\<close> for
  \<^verbatim>\<open>FEInterface::shape_second_deriv(fe_type, extra_order, elem, sf, j, p)\<close>. The local
  \<^verbatim>\<open>weighted_gradb_sum\<close> is not assigned inside the loop; the statement inside
  \<^verbatim>\<open>if (j1 != j2)\<close> adds \<^verbatim>\<open>weighted_grada\<close> to \<^verbatim>\<open>weighted_grada_sum\<close> once more.\<close>

definition shape_second_deriv_body_3D ::
  "Real list \<Rightarrow> (nat \<Rightarrow> Real) \<Rightarrow> (nat \<Rightarrow> nat \<Rightarrow> Real) \<Rightarrow> (nat \<Rightarrow> Real) \<Rightarrow> nat \<Rightarrow> nat \<Rightarrow> nat \<Rightarrow>
     nat \<Rightarrow> Real \<times> Real \<times> Real \<times> Real \<times> Real \<times> Real \<times> Real \<times> Real \<Rightarrow>
     Real \<times> Real \<times> Real \<times> Real \<times> Real \<times> Real \<times> Real \<times> Real" where
  "shape_second_deriv_body_3D node_weights N dN d2N i j1 j2 sf =
     (\<lambda>(weighted_shape_i, weighted_sum, weighted_grada_i, weighted_grada_sum,
         weighted_gradb_i, weighted_gradb_sum, weighted_hess_i, weighted_hess_sum).
        let weighted_shape = node_weights ! sf * N sf;
            weighted_grada = node_weights ! sf * dN j1 sf;
            weighted_hess = node_weights ! sf * d2N sf;
            weighted_sum = weighted_sum + weighted_shape;
            weighted_grada_sum = weighted_grada_sum + weighted_grada;
            weighted_gradb = weighted_grada;
            (weighted_gradb, weighted_grada_sum) =
              (if j1 \<noteq> j2
               then ((if j1 = j2 then weighted_grada else node_weights ! sf * dN j2 sf),
                     weighted_grada_sum + weighted_grada)
               else (weighted_gradb, weighted_grada_sum));
            weighted_hess_sum = weighted_hess_sum + weighted_hess
        in if sf = i
           then (weighted_shape, weighted_sum, weighted_grada, weighted_grada_sum,
                 weighted_gradb, weighted_gradb_sum, weighted_hess, weighted_hess_sum)
           else (weighted_shape_i, weighted_sum, weighted_grada_i, weighted_grada_sum,
                 weighted_gradb_i, weighted_gradb_sum, weighted_hess_i, weighted_hess_sum))"

text \<open>The function from \<^verbatim>\<open>libmesh_assert(elem)\<close> to its \<^verbatim>\<open>return\<close>, for the values of
  \<^verbatim>\<open>j1\<close> and \<^verbatim>\<open>j2\<close> that the \<^verbatim>\<open>switch\<close> has set.\<close>

definition FE3_shape_second_deriv_after_switch ::
  "FEInterface \<Rightarrow> Elem option \<Rightarrow> Order \<Rightarrow> nat \<Rightarrow> nat \<Rightarrow> nat \<Rightarrow> nat \<Rightarrow> Point \<Rightarrow> bool \<Rightarrow> result" where
  "FE3_shape_second_deriv_after_switch fe elem ord i j j1 j2 p add_p_level =
     (case elem of
        None \<Rightarrow> Inl Libmesh_assert
      | Some el \<Rightarrow>
          let extra_order = extra_order_of add_p_level el;
              fe_type = \<lparr>order = ord, family = underlying_fe_family\<rparr>;
              n_sf = n_shape_functions fe fe_type extra_order el;
              n_nodes = n_nodes el
          in if n_sf \<noteq> n_nodes then Inl Libmesh_assert
             else
               let node_weights = node_weights_of el;
                   (weighted_shape_i, weighted_sum, weighted_grada_i, weighted_grada_sum,
                    weighted_gradb_i, weighted_gradb_sum, weighted_hess_i, weighted_hess_sum) =
                     for_loop n_sf
                       (shape_second_deriv_body_3D node_weights
                          (\<lambda>sf. shape fe fe_type extra_order el sf p)
                          (\<lambda>d sf. shape_deriv fe fe_type extra_order el sf d p)
                          (\<lambda>sf. shape_second_deriv fe fe_type extra_order el sf j p) i j1 j2)
                       (0, 0, 0, 0, 0, 0, 0, 0);
                   weighted_gradb_sum =
                     (if j1 = j2 then weighted_grada_sum else weighted_gradb_sum)
               in Inr (Real_div_opt
                        (Real_div_opt
                           (case Real_div
                                   (2 * weighted_grada_sum * weighted_shape_i * weighted_gradb_sum)
                                   weighted_sum of
                              None \<Rightarrow> None
                            | Some q \<Rightarrow>
                                Some (weighted_sum * weighted_hess_i -
                                      weighted_grada_i * weighted_gradb_sum -
                                      weighted_shape_i * weighted_hess_sum -
                                      weighted_gradb_i * weighted_grada_sum + q))
                           weighted_sum)
                        weighted_sum))"

definition FE3_shape_second_deriv ::
  "FEInterface \<Rightarrow> Elem option \<Rightarrow> Order \<Rightarrow> nat \<Rightarrow> nat \<Rightarrow> Point \<Rightarrow> bool \<Rightarrow> result" where
  "FE3_shape_second_deriv fe elem ord i j p add_p_level =
     (case second_deriv_switch j of
        Inl e \<Rightarrow> Inl e
      | Inr (j1, j2) \<Rightarrow>
          FE3_shape_second_deriv_after_switch fe elem ord i j j1 j2 p add_p_level)"

subsection \<open>The quantities of the specification\<close>

text \<open>The weight \<open>w[sf]\<close> of node \<open>sf\<close>, and the values \<open>N[sf](p)\<close>, first derivatives and second
  derivatives of the underlying Bernstein basis as \<^verbatim>\<open>FEInterface\<close> reports them for the
  order and the extra order of the call.\<close>

definition w :: "Elem \<Rightarrow> nat \<Rightarrow> Real" where
  "w el sf = get_extra_datum (node_ref el sf) (mapping_data el)"

definition fe_type_of :: "Order \<Rightarrow> FEType" where
  "fe_type_of ord = \<lparr>order = ord, family = BERNSTEIN\<rparr>"

definition n_sf_of :: "FEInterface \<Rightarrow> Elem \<Rightarrow> Order \<Rightarrow> bool \<Rightarrow> nat" where
  "n_sf_of fe el ord add_p_level =
     n_shape_functions fe (fe_type_of ord) (extra_order_of add_p_level el) el"

definition N :: "FEInterface \<Rightarrow> Elem \<Rightarrow> Order \<Rightarrow> bool \<Rightarrow> Point \<Rightarrow> nat \<Rightarrow> Real" where
  "N fe el ord add_p_level p sf =
     shape fe (fe_type_of ord) (extra_order_of add_p_level el) el sf p"

definition dN :: "FEInterface \<Rightarrow> Elem \<Rightarrow> Order \<Rightarrow> bool \<Rightarrow> Point \<Rightarrow> nat \<Rightarrow> nat \<Rightarrow> Real" where
  "dN fe el ord add_p_level p d sf =
     shape_deriv fe (fe_type_of ord) (extra_order_of add_p_level el) el sf d p"

definition d2N :: "FEInterface \<Rightarrow> Elem \<Rightarrow> Order \<Rightarrow> bool \<Rightarrow> Point \<Rightarrow> nat \<Rightarrow> nat \<Rightarrow> Real" where
  "d2N fe el ord add_p_level p d sf =
     shape_second_deriv fe (fe_type_of ord) (extra_order_of add_p_level el) el sf d p"

text \<open>The weighted picks and sums of the specification: \<open>numer = w[i]\<cdot>N[i]\<close>,
  \<open>denom = \<Sum>\<^sub>s\<^sub>f w[sf]\<cdot>N[sf]\<close>, and the same with the first derivatives in direction \<open>d\<close>
  (\<open>numerGrad\<close>, \<open>denomGrad\<close>) and the second derivatives of index \<open>d\<close> (\<open>numerHess\<close>,
  \<open>denomHess\<close>). The sums range over the shape functions \<open>0, \<dots>, n_sf - 1\<close>.\<close>

definition numer :: "FEInterface \<Rightarrow> Elem \<Rightarrow> Order \<Rightarrow> bool \<Rightarrow> Point \<Rightarrow> nat \<Rightarrow> Real" where
  "numer fe el ord add_p_level p i = w el i * N fe el ord add_p_level p i"

definition denom :: "FEInterface \<Rightarrow> Elem \<Rightarrow> Order \<Rightarrow> bool \<Rightarrow> Point \<Rightarrow> Real" where
  "denom fe el ord add_p_level p =
     (\<Sum>sf<n_sf_of fe el ord add_p_level. w el sf * N fe el ord add_p_level p sf)"

definition numerGrad ::
  "FEInterface \<Rightarrow> Elem \<Rightarrow> Order \<Rightarrow> bool \<Rightarrow> Point \<Rightarrow> nat \<Rightarrow> nat \<Rightarrow> Real" where
  "numerGrad fe el ord add_p_level p d i = w el i * dN fe el ord add_p_level p d i"

definition denomGrad :: "FEInterface \<Rightarrow> Elem \<Rightarrow> Order \<Rightarrow> bool \<Rightarrow> Point \<Rightarrow> nat \<Rightarrow> Real" where
  "denomGrad fe el ord add_p_level p d =
     (\<Sum>sf<n_sf_of fe el ord add_p_level. w el sf * dN fe el ord add_p_level p d sf)"

definition numerHess ::
  "FEInterface \<Rightarrow> Elem \<Rightarrow> Order \<Rightarrow> bool \<Rightarrow> Point \<Rightarrow> nat \<Rightarrow> nat \<Rightarrow> Real" where
  "numerHess fe el ord add_p_level p d i = w el i * d2N fe el ord add_p_level p d i"

definition denomHess :: "FEInterface \<Rightarrow> Elem \<Rightarrow> Order \<Rightarrow> bool \<Rightarrow> Point \<Rightarrow> nat \<Rightarrow> Real" where
  "denomHess fe el ord add_p_level p d =
     (\<Sum>sf<n_sf_of fe el ord add_p_level. w el sf * d2N fe el ord add_p_level p d sf)"

text \<open>The mixed second partial of the specification for the axis pair \<open>(j1, j2)\<close> of the
  index \<open>j\<close>: \<open>gradaSum\<close> and \<open>gradbSum\<close> are the sums of the weighted first derivatives
  along \<open>j1\<close> and along \<open>j2\<close>, every node counted once.\<close>

definition spec_second_deriv_3D ::
  "FEInterface \<Rightarrow> Elem \<Rightarrow> Order \<Rightarrow> bool \<Rightarrow> Point \<Rightarrow> nat \<Rightarrow> nat \<Rightarrow> nat \<Rightarrow> nat \<Rightarrow> Real" where
  "spec_second_deriv_3D fe el ord add_p_level p i j j1 j2 =
     (let numerA = numerGrad fe el ord add_p_level p j1 i;
          numerB = numerGrad fe el ord add_p_level p j2 i;
          numerH = numerHess fe el ord add_p_level p j i;
          gradaSum = denomGrad fe el ord add_p_level p j1;
          gradbSum = denomGrad fe el ord add_p_level p j2;
          hessSum = denomHess fe el ord add_p_level p j
      in (denom fe el ord add_p_level p * numerH - numerA * gradbSum -
          numer fe el ord add_p_level p i * hessSum - numerB * gradaSum +
          2 * gradaSum * numer fe el ord add_p_level p i * gradbSum /
            denom fe el ord add_p_level p) /
         (denom fe el ord add_p_level p)\<^sup>2)"


text \<open>The point \<open>p\<close> moved by \<open>t\<close> along the axis \<open>d\<close>, and the real number a call returned
  (read as \<open>0\<close> when there is none), used to state that a returned derivative is the
  derivative of the returned value.\<close>

fun shift :: "Point \<Rightarrow> nat \<Rightarrow> Real \<Rightarrow> Point" where
  "shift (x, y, z) d t =
     (if d = 0 then (x + t, y, z) else if d = 1 then (x, y + t, z) else (x, y, z + t))"

definition value_of :: "result \<Rightarrow> Real" where
  "value_of r = (case r of Inr (Some v) \<Rightarrow> v | _ \<Rightarrow> 0)"

subsection \<open>Two concrete elements\<close>

text \<open>A three-node edge with the quadratic Bernstein basis of \<open>[-1, 1]\<close>, its functions
  numbered from one end to the other, and a four-node tetrahedron with the first-order
  Bernstein basis (the barycentric coordinates). The node weights are stored as extra datum
  \<open>0\<close> of the nodes.\<close>

definition edge3 :: "Real list \<Rightarrow> Elem" where
  "edge3 weights =
     \<lparr>p_level = 0, n_nodes = 3, mapping_data = 0,
      node_ref = (\<lambda>n. \<lparr>get_extra_datum = (\<lambda>k. if k = 0 then weights ! n else 0)\<rparr>)\<rparr>"

definition bernstein_edge3 :: FEInterface where
  "bernstein_edge3 =
     \<lparr>n_shape_functions = (\<lambda>fe_type extra_order el. 3),
      shape = (\<lambda>fe_type extra_order el sf (x, y, z).
                 [(1 - x)\<^sup>2 / 4, (1 - x) * (1 + x) / 2, (1 + x)\<^sup>2 / 4] ! sf),
      shape_deriv = (\<lambda>fe_type extra_order el sf d (x, y, z).
                 [- (1 - x) / 2, - x, (1 + x) / 2] ! sf),
      shape_second_deriv = (\<lambda>fe_type extra_order el sf d (x, y, z).
                 [1 / 2, - 1, 1 / 2] ! sf)\<rparr>"

definition tet4 :: "Real list \<Rightarrow> Elem" where
  "tet4 weights =
     \<lparr>p_level = 0, n_nodes = 4, mapping_data = 0,
      node_ref = (\<lambda>n. \<lparr>get_extra_datum = (\<lambda>k. if k = 0 then weights ! n else 0)\<rparr>)\<rparr>"

definition bernstein_tet4 :: FEInterface where
  "bernstein_tet4 =
     \<lparr>n_shape_functions = (\<lambda>fe_type extra_order el. 4),
      shape = (\<lambda>fe_type extra_order el sf (x, y, z). [1 - x - y - z, x, y, z] ! sf),
      shape_deriv = (\<lambda>fe_type extra_order el sf d (x, y, z).
                 [[- 1, 1, 0, 0], [- 1, 0, 1, 0], [- 1, 0, 0, 1]] ! d ! sf),
      shape_second_deriv = (\<lambda>fe_type extra_order el sf d (x, y, z). 0)\<rparr>"

text \<open>An interface that reports, for every value of \<open>fe\<close>, the double nearest to it, and the
  point of the edge whose coordinate is the double nearest to \<open>- 9/10\<close>.\<close>

definition nearest_doubles :: "FEInterface \<Rightarrow> FEInterface" where
  "nearest_doubles fe =
     fe\<lparr>shape := (\<lambda>fe_type extra_order el sf p.
                     case double_round (shape fe fe_type extra_order el sf p) of
                       None \<Rightarrow> 0
                     | Some v \<Rightarrow> v)\<rparr>"

definition near_minus_09 :: Point where
  "near_minus_09 = (- 8106479329266893 / 2 ^ 53, 0, 0)"

subsection \<open>The loops compute picks and sums\<close>

lemma for_loop_0: "for_loop 0 body s = s"
  by (simp add: for_loop_def)

lemma for_loop_Suc: "for_loop (Suc n) body s = body n (for_loop n body s)"
  by (simp add: for_loop_def)

lemma node_weights_nth: "sf < n_nodes el \<Longrightarrow> node_weights_of el ! sf = w el sf"
  by (simp add: node_weights_of_def w_def)

lemma shape_loop:
  "for_loop n (shape_body ws f i) (0, 0) =
     ((if i < n then ws ! i * f i else 0), (\<Sum>sf<n. ws ! sf * f sf))"
proof (induction n)
  case 0
  show ?case by (simp add: for_loop_0)
next
  case (Suc n)
  show ?case
    by (simp only: for_loop_Suc Suc.IH) (simp add: shape_body_def less_Suc_eq Let_def)
qed

lemma shape_deriv_loop:
  "for_loop n (shape_deriv_body ws f g i) (0, 0, 0, 0) =
     ((if i < n then ws ! i * f i else 0), (\<Sum>sf<n. ws ! sf * f sf),
      (if i < n then ws ! i * g i else 0), (\<Sum>sf<n. ws ! sf * g sf))"
proof (induction n)
  case 0
  show ?case by (simp add: for_loop_0)
next
  case (Suc n)
  show ?case
    by (simp only: for_loop_Suc Suc.IH) (simp add: shape_deriv_body_def less_Suc_eq Let_def)
qed

lemma shape_second_deriv_loop_1D:
  "for_loop n (shape_second_deriv_body_1D ws f g h i) (0, 0, 0, 0, 0, 0) =
     ((if i < n then ws ! i * f i else 0), (\<Sum>sf<n. ws ! sf * f sf),
      (if i < n then ws ! i * g i else 0), (\<Sum>sf<n. ws ! sf * g sf),
      (if i < n then ws ! i * h i else 0), (\<Sum>sf<n. ws ! sf * h sf))"
proof (induction n)
  case 0
  show ?case by (simp add: for_loop_0)
next
  case (Suc n)
  show ?case
    by (simp only: for_loop_Suc Suc.IH)
       (simp add: shape_second_deriv_body_1D_def less_Suc_eq Let_def)
qed

text \<open>In three dimensions the loop leaves \<^verbatim>\<open>weighted_gradb_sum\<close> at its initial value
  and, for \<open>j1 \<noteq> j2\<close>, counts every term of \<^verbatim>\<open>weighted_grada_sum\<close> twice.\<close>

lemma shape_second_deriv_loop_3D:
  "for_loop n (shape_second_deriv_body_3D ws f g h i j1 j2) (0, 0, 0, 0, 0, 0, 0, 0) =
     ((if i < n then ws ! i * f i else 0), (\<Sum>sf<n. ws ! sf * f sf),
      (if i < n then ws ! i * g j1 i else 0),
      (if j1 \<noteq> j2 then 2 * (\<Sum>sf<n. ws ! sf * g j1 sf) else (\<Sum>sf<n. ws ! sf * g j1 sf)),
      (if i < n then ws ! i * g j2 i else 0),
      0,
      (if i < n then ws ! i * h i else 0), (\<Sum>sf<n. ws ! sf * h sf))"
proof (induction n)
  case 0
  show ?case by (simp add: for_loop_0)
next
  case (Suc n)
  show ?case
    by (simp only: for_loop_Suc Suc.IH)
       (simp add: shape_second_deriv_body_3D_def less_Suc_eq Let_def)
qed

lemma node_weights_sum:
  "n = n_nodes el \<Longrightarrow> (\<Sum>sf<n. node_weights_of el ! sf * f sf) = (\<Sum>sf<n. w el sf * f sf)"
  by (simp add: node_weights_nth)

subsection \<open>What each function returns\<close>

lemma FE1_shape_eq:
  assumes "n_sf_of fe el ord apl = n_nodes el"
  shows "FE1_shape fe (Some el) ord i p apl =
           Inr (Real_div (if i < n_nodes el then numer fe el ord apl p i else 0)
                         (denom fe el ord apl p))"
  using assms
  by (simp add: FE1_shape_def Let_def shape_loop node_weights_sum node_weights_nth
        n_sf_of_def fe_type_of_def underlying_fe_family_def numer_def denom_def N_def)

lemma FE3_shape_eq:
  assumes "n_sf_of fe el ord apl = n_nodes el"
  shows "FE3_shape fe (Some el) ord i p apl =
           Inr (Real_div (if i < n_nodes el then numer fe el ord apl p i else 0)
                         (denom fe el ord apl p))"
  using assms
  by (simp add: FE3_shape_def Let_def shape_loop node_weights_sum node_weights_nth
        n_sf_of_def fe_type_of_def underlying_fe_family_def numer_def denom_def N_def)

lemma FE1_shape_deriv_eq:
  assumes "n_sf_of fe el ord apl = n_nodes el"
  shows "FE1_shape_deriv fe (Some el) ord i 0 p apl =
           Inr (Real_div_opt (Real_div
                  (denom fe el ord apl p * (if i < n_nodes el then numerGrad fe el ord apl p 0 i else 0)
                   - (if i < n_nodes el then numer fe el ord apl p i else 0) * denomGrad fe el ord apl p 0)
                  (denom fe el ord apl p)) (denom fe el ord apl p))"
  using assms
  by (simp add: FE1_shape_deriv_def Let_def shape_deriv_loop node_weights_sum node_weights_nth
        n_sf_of_def fe_type_of_def underlying_fe_family_def numer_def denom_def N_def
        numerGrad_def denomGrad_def dN_def)

lemma FE3_shape_deriv_eq:
  assumes "n_sf_of fe el ord apl = n_nodes el"
  shows "FE3_shape_deriv fe (Some el) ord i j p apl =
           Inr (Real_div_opt (Real_div
                  (denom fe el ord apl p * (if i < n_nodes el then numerGrad fe el ord apl p j i else 0)
                   - (if i < n_nodes el then numer fe el ord apl p i else 0) * denomGrad fe el ord apl p j)
                  (denom fe el ord apl p)) (denom fe el ord apl p))"
  using assms
  by (simp add: FE3_shape_deriv_def Let_def shape_deriv_loop node_weights_sum node_weights_nth
        n_sf_of_def fe_type_of_def underlying_fe_family_def numer_def denom_def N_def
        numerGrad_def denomGrad_def dN_def)

lemma FE1_shape_second_deriv_eq:
  assumes "n_sf_of fe el ord apl = n_nodes el"
  shows "FE1_shape_second_deriv fe (Some el) ord i 0 p apl =
     (let numer_i = (if i < n_nodes el then numer fe el ord apl p i else 0);
          numerGrad_i = (if i < n_nodes el then numerGrad fe el ord apl p 0 i else 0);
          numerHess_i = (if i < n_nodes el then numerHess fe el ord apl p 0 i else 0);
          dn = denom fe el ord apl p
      in Inr (Real_div
           (dn * dn * (dn * numerHess_i - numer_i * denomHess fe el ord apl p 0) -
            (dn * numerGrad_i - numer_i * denomGrad fe el ord apl p 0) * 2 * dn *
              denomGrad fe el ord apl p 0)
           (dn * dn * dn * dn)))"
  using assms
  by (simp add: FE1_shape_second_deriv_def Let_def shape_second_deriv_loop_1D node_weights_sum
        node_weights_nth n_sf_of_def fe_type_of_def underlying_fe_family_def numer_def denom_def
        N_def numerGrad_def denomGrad_def dN_def numerHess_def denomHess_def d2N_def)

lemma FE3_after_switch_eq:
  assumes "n_sf_of fe el ord apl = n_nodes el"
  shows "FE3_shape_second_deriv_after_switch fe (Some el) ord i j j1 j2 p apl =
     (let numer_i = (if i < n_nodes el then numer fe el ord apl p i else 0);
          numerA = (if i < n_nodes el then numerGrad fe el ord apl p j1 i else 0);
          numerB = (if i < n_nodes el then numerGrad fe el ord apl p j2 i else 0);
          numerH = (if i < n_nodes el then numerHess fe el ord apl p j i else 0);
          dn = denom fe el ord apl p;
          gradaSum = (if j1 \<noteq> j2 then 2 * denomGrad fe el ord apl p j1
                      else denomGrad fe el ord apl p j1);
          gradbSum = (if j1 = j2 then denomGrad fe el ord apl p j1 else 0)
      in Inr (if dn = 0 then None
              else Some ((dn * numerH - numerA * gradbSum - numer_i * denomHess fe el ord apl p j -
                          numerB * gradaSum + 2 * gradaSum * numer_i * gradbSum / dn) / dn / dn)))"
  using assms
  by (simp add: FE3_shape_second_deriv_after_switch_def Let_def shape_second_deriv_loop_3D
        node_weights_sum Real_div_def Real_div_opt_def
        node_weights_nth n_sf_of_def fe_type_of_def underlying_fe_family_def numer_def denom_def
        N_def numerGrad_def denomGrad_def dN_def numerHess_def denomHess_def d2N_def)

lemma shift_0: "shift p d 0 = p"
  by (cases p) simp

lemma value_of_Some: "value_of (Inr (Some v)) = v"
  by (simp add: value_of_def)

text \<open>With a nonzero denominator the two divisions of \<^verbatim>\<open>shape_deriv\<close> give the quotient
  rule.\<close>

lemma value_of_FE1_shape:
  "n_sf_of fe el ord apl = n_nodes el \<Longrightarrow> i < n_nodes el \<Longrightarrow>
   value_of (FE1_shape fe (Some el) ord i q apl) = numer fe el ord apl q i / denom fe el ord apl q"
  by (simp add: FE1_shape_eq Real_div_def value_of_def)

lemma value_of_FE3_shape:
  "n_sf_of fe el ord apl = n_nodes el \<Longrightarrow> i < n_nodes el \<Longrightarrow>
   value_of (FE3_shape fe (Some el) ord i q apl) = numer fe el ord apl q i / denom fe el ord apl q"
  by (simp add: FE3_shape_eq Real_div_def value_of_def)

lemma FE1_shape_deriv_value:
  assumes "n_sf_of fe el ord apl = n_nodes el" and "i < n_nodes el"
    and "denom fe el ord apl p \<noteq> 0"
  shows "FE1_shape_deriv fe (Some el) ord i 0 p apl =
           Inr (Some ((denom fe el ord apl p * numerGrad fe el ord apl p 0 i -
                       numer fe el ord apl p i * denomGrad fe el ord apl p 0) /
                      (denom fe el ord apl p)\<^sup>2))"
  using assms
  by (simp add: FE1_shape_deriv_eq Real_div_def Real_div_opt_def power2_eq_square)

lemma FE3_shape_deriv_value:
  assumes "n_sf_of fe el ord apl = n_nodes el" and "i < n_nodes el"
    and "denom fe el ord apl p \<noteq> 0"
  shows "FE3_shape_deriv fe (Some el) ord i j p apl =
           Inr (Some ((denom fe el ord apl p * numerGrad fe el ord apl p j i -
                       numer fe el ord apl p i * denomGrad fe el ord apl p j) /
                      (denom fe el ord apl p)\<^sup>2))"
  using assms
  by (simp add: FE3_shape_deriv_eq Real_div_def Real_div_opt_def power2_eq_square)

lemma ratio_has_derivative:
  assumes der: "\<forall>sf<n_sf_of fe el ord apl.
       ((\<lambda>t. N fe el ord apl (shift p d t) sf) has_real_derivative dN fe el ord apl p d sf) (at 0)"
    and nz: "denom fe el ord apl p \<noteq> 0"
    and ind: "i < n_sf_of fe el ord apl"
  shows "((\<lambda>t. numer fe el ord apl (shift p d t) i / denom fe el ord apl (shift p d t))
            has_real_derivative
          (denom fe el ord apl p * numerGrad fe el ord apl p d i -
             numer fe el ord apl p i * denomGrad fe el ord apl p d) /
          (denom fe el ord apl p)\<^sup>2) (at 0)"
proof -
  have one: "((\<lambda>t. w el sf * N fe el ord apl (shift p d t) sf) has_real_derivative
               w el sf * dN fe el ord apl p d sf) (at 0)"
    if "sf < n_sf_of fe el ord apl" for sf
    using der that by (intro DERIV_cmult) simp
  have dd: "((\<lambda>t. denom fe el ord apl (shift p d t)) has_real_derivative
              denomGrad fe el ord apl p d) (at 0)"
    unfolding denom_def denomGrad_def by (rule DERIV_sum) (simp add: one)
  have dn: "((\<lambda>t. numer fe el ord apl (shift p d t) i) has_real_derivative
              numerGrad fe el ord apl p d i) (at 0)"
    unfolding numer_def numerGrad_def by (rule one [OF ind])
  have "((\<lambda>t. numer fe el ord apl (shift p d t) i / denom fe el ord apl (shift p d t))
            has_real_derivative
          (numerGrad fe el ord apl p d i * denom fe el ord apl (shift p d 0) -
             numer fe el ord apl (shift p d 0) i * denomGrad fe el ord apl p d) /
          (denom fe el ord apl (shift p d 0) * denom fe el ord apl (shift p d 0))) (at 0)"
    using dn dd nz by (intro DERIV_divide) (simp_all add: shift_0)
  then show ?thesis
    by (simp add: shift_0 power2_eq_square mult.commute)
qed

text \<open>In three dimensions the second derivative agrees with the specification's formula on
  the diagonal indices \<open>0\<close>, \<open>2\<close> and \<open>5\<close>. On the mixed indices \<open>1\<close>, \<open>3\<close> and \<open>4\<close> the
  terms with \<^verbatim>\<open>weighted_gradb_sum\<close> vanish and the sum along \<open>j1\<close> is doubled.\<close>

lemma second_deriv_3D_diagonal:
  assumes "n_sf_of fe el ord apl = n_nodes el" and "i < n_sf_of fe el ord apl"
    and "denom fe el ord apl p \<noteq> 0" and "second_deriv_switch j = Inr (d, d)"
  shows "FE3_shape_second_deriv fe (Some el) ord i j p apl =
           Inr (Some (spec_second_deriv_3D fe el ord apl p i j d d))"
  using assms
  by (simp add: FE3_shape_second_deriv_def FE3_after_switch_eq spec_second_deriv_3D_def Let_def
        power2_eq_square)

lemma second_deriv_3D_mixed:
  assumes "n_sf_of fe el ord apl = n_nodes el" and "i < n_sf_of fe el ord apl"
    and "denom fe el ord apl p \<noteq> 0" and "second_deriv_switch j = Inr (j1, j2)" and "j1 \<noteq> j2"
  shows "FE3_shape_second_deriv fe (Some el) ord i j p apl =
           Inr (Some ((denom fe el ord apl p * numerHess fe el ord apl p j i -
                       numer fe el ord apl p i * denomHess fe el ord apl p j -
                       numerGrad fe el ord apl p j2 i * (2 * denomGrad fe el ord apl p j1)) /
                      (denom fe el ord apl p)\<^sup>2))"
  using assms
  by (simp add: FE3_shape_second_deriv_def FE3_after_switch_eq Let_def power2_eq_square)

text \<open>The specification's formula is symmetric in the two axes.\<close>

lemma spec_second_deriv_3D_symmetric:
  "spec_second_deriv_3D fe el ord apl p i j j1 j2 = spec_second_deriv_3D fe el ord apl p i j j2 j1"
  by (simp add: spec_second_deriv_3D_def Let_def algebra_simps)

subsection \<open>Facts about the two concrete elements\<close>

lemma sum_lessThan_3: "(\<Sum>sf<(3::nat). f sf) = f 0 + f 1 + (f 2 :: real)"
  by (simp add: eval_nat_numeral)

lemma sum_lessThan_4: "(\<Sum>sf<(4::nat). f sf) = f 0 + f 1 + f 2 + (f 3 :: real)"
  by (simp add: eval_nat_numeral)

lemma edge3_simps:
  "n_nodes (edge3 ws) = 3"
  "w (edge3 ws) n = ws ! n"
  "n_sf_of bernstein_edge3 el ord apl = 3"
  "N bernstein_edge3 el ord apl (x, y, z) sf =
     [(1 - x)\<^sup>2 / 4, (1 - x) * (1 + x) / 2, (1 + x)\<^sup>2 / 4] ! sf"
  "dN bernstein_edge3 el ord apl (x, y, z) d sf = [- (1 - x) / 2, - x, (1 + x) / 2] ! sf"
  "d2N bernstein_edge3 el ord apl (x, y, z) d sf = [1 / 2, - 1, 1 / 2] ! sf"
  by (simp_all add: edge3_def bernstein_edge3_def w_def n_sf_of_def N_def dN_def d2N_def)

lemma tet4_simps:
  "n_nodes (tet4 ws) = 4"
  "w (tet4 ws) n = ws ! n"
  "n_sf_of bernstein_tet4 el ord apl = 4"
  "N bernstein_tet4 el ord apl (x, y, z) sf = [1 - x - y - z, x, y, z] ! sf"
  "dN bernstein_tet4 el ord apl (x, y, z) d sf =
     [[- 1, 1, 0, 0], [- 1, 0, 1, 0], [- 1, 0, 0, 1]] ! d ! sf"
  "d2N bernstein_tet4 el ord apl (x, y, z) d sf = 0"
  by (simp_all add: tet4_def bernstein_tet4_def w_def n_sf_of_def N_def dN_def d2N_def)

lemma edge3_derivs:
  "sf < 3 \<Longrightarrow>
     ((\<lambda>t. N bernstein_edge3 (edge3 ws) ord apl (shift (x, y, z) 0 t) sf) has_real_derivative
        dN bernstein_edge3 (edge3 ws) ord apl (x, y, z) 0 sf) (at 0)"
proof -
  assume "sf < 3"
  then consider "sf = 0" | "sf = 1" | "sf = 2" by linarith
  then show ?thesis
  proof cases
    case 1
    then show ?thesis
      by (auto simp add: edge3_simps intro!: derivative_eq_intros)
  next
    case 2
    then show ?thesis
      by (auto simp add: edge3_simps intro!: derivative_eq_intros)
  next
    case 3
    then show ?thesis
      by (auto simp add: edge3_simps intro!: derivative_eq_intros)
  qed
qed

lemma tet4_derivs:
  "sf < 4 \<Longrightarrow> d < 3 \<Longrightarrow>
     ((\<lambda>t. N bernstein_tet4 (tet4 ws) ord apl (shift (x, y, z) d t) sf) has_real_derivative
        dN bernstein_tet4 (tet4 ws) ord apl (x, y, z) d sf) (at 0)"
proof -
  assume "sf < 4" "d < 3"
  then have "(sf = 0 \<or> sf = 1 \<or> sf = 2 \<or> sf = 3) \<and> (d = 0 \<or> d = 1 \<or> d = 2)" by linarith
  then show ?thesis
    by (auto simp add: tet4_simps intro!: derivative_eq_intros)
qed

lemma tet4_values:
  "denom bernstein_tet4 (tet4 [1, 2, 3, 4]) 1 False (1 / 4, 1 / 4, 1 / 4) = 5 / 2"
  "numer bernstein_tet4 (tet4 [1, 2, 3, 4]) 1 False (1 / 4, 1 / 4, 1 / 4) 1 = 1 / 2"
  "numerGrad bernstein_tet4 (tet4 [1, 2, 3, 4]) 1 False (1 / 4, 1 / 4, 1 / 4) 0 1 = 2"
  "numerGrad bernstein_tet4 (tet4 [1, 2, 3, 4]) 1 False (1 / 4, 1 / 4, 1 / 4) 1 1 = 0"
  "denomGrad bernstein_tet4 (tet4 [1, 2, 3, 4]) 1 False (1 / 4, 1 / 4, 1 / 4) 0 = 1"
  "denomGrad bernstein_tet4 (tet4 [1, 2, 3, 4]) 1 False (1 / 4, 1 / 4, 1 / 4) 1 = 2"
  "numerHess bernstein_tet4 (tet4 [1, 2, 3, 4]) 1 False (1 / 4, 1 / 4, 1 / 4) 1 1 = 0"
  "denomHess bernstein_tet4 (tet4 [1, 2, 3, 4]) 1 False (1 / 4, 1 / 4, 1 / 4) 1 = 0"
  by (simp_all add: denom_def numer_def numerGrad_def denomGrad_def numerHess_def denomHess_def
        tet4_simps sum_lessThan_4)

text \<open>On the tetrahedron with weights \<open>[1, 2, 3, 4]\<close> the first derivative of shape function
  \<open>1\<close> along axis \<open>1\<close>, as \<^verbatim>\<open>shape_deriv\<close> returns it, has the derivative \<open>- 64/125\<close> along
  axis \<open>0\<close> at the point \<open>(1/4, 1/4, 1/4)\<close>: this is the mixed second partial there.\<close>

lemma tet4_shape_deriv_along:
  "value_of (FE3_shape_deriv bernstein_tet4 (Some (tet4 [1, 2, 3, 4])) 1 1 1
      (shift (1 / 4, 1 / 4, 1 / 4) 0 t) False) = (- 1 - 4 * t) / (5 / 2 + t) / (5 / 2 + t)"
proof -
  have h: "n_sf_of bernstein_tet4 (tet4 [1, 2, 3, 4]) 1 False = n_nodes (tet4 [1, 2, 3, 4])"
    by (simp add: tet4_simps)
  have v: "denom bernstein_tet4 (tet4 [1, 2, 3, 4]) 1 False (1 / 4 + t, 1 / 4, 1 / 4) = 5 / 2 + t"
    "numer bernstein_tet4 (tet4 [1, 2, 3, 4]) 1 False (1 / 4 + t, 1 / 4, 1 / 4) 1 = 2 * (1 / 4 + t)"
    "numerGrad bernstein_tet4 (tet4 [1, 2, 3, 4]) 1 False (1 / 4 + t, 1 / 4, 1 / 4) 1 1 = 0"
    "denomGrad bernstein_tet4 (tet4 [1, 2, 3, 4]) 1 False (1 / 4 + t, 1 / 4, 1 / 4) 1 = 2"
    by (simp_all add: denom_def numer_def numerGrad_def denomGrad_def tet4_simps sum_lessThan_4)
  show ?thesis
    by (simp add: FE3_shape_deriv_eq [OF h] v tet4_simps Real_div_def Real_div_opt_def
          value_of_def del: One_nat_def)
qed

lemma tet4_mixed_partial:
  "((\<lambda>t. value_of (FE3_shape_deriv bernstein_tet4 (Some (tet4 [1, 2, 3, 4])) 1 1 1
             (shift (1 / 4, 1 / 4, 1 / 4) 0 t) False)) has_real_derivative - 64 / 125) (at 0)"
  unfolding tet4_shape_deriv_along
  by (auto intro!: derivative_eq_intros)

subsection \<open>Double precision on the three-node edge\<close>

lemma binade_bounds: "0 < x \<Longrightarrow> 2 powi binade x \<le> x \<and> x < 2 powi (binade x + 1)"
proof (induction x rule: binade.induct)
  case (1 x)
  show ?case
  proof (cases "2 \<le> x")
    case True
    then have b: "binade x = binade (x / 2) + 1"
      by (simp add: binade.simps)
    have "2 powi binade (x / 2) \<le> x / 2 \<and> x / 2 < 2 powi (binade (x / 2) + 1)"
      using 1(1) [OF True] 1(3) by simp
    then show ?thesis
      unfolding b by (simp add: power_int_add field_simps)
  next
    case False
    show ?thesis
    proof (cases "x < 1")
      case True
      then have b: "binade x = binade (2 * x) - 1"
        using False 1(3) by (simp add: binade.simps)
      have "2 powi binade (2 * x) \<le> 2 * x \<and> 2 * x < 2 powi (binade (2 * x) + 1)"
        using 1(2) [OF False] True 1(3) by simp
      then show ?thesis
        unfolding b by (simp add: power_int_add power_int_diff field_simps)
    next
      case ge: False
      then have "binade x = 0"
        using False by (simp add: binade.simps)
      then show ?thesis using False ge by simp
    qed
  qed
qed

lemmas dbl = double_round_def round_half_even_def binade.simps Let_def power_int_minus
  double_mult_def double_add_def double_div_def

lemma n_shape_functions_edge3: "n_shape_functions bernstein_edge3 ft eo el = 3"
  by (simp add: bernstein_edge3_def)

lemma for_loop_3: "for_loop 3 body s = body 2 (body 1 (body 0 s))"
  by (simp add: for_loop_def eval_nat_numeral upt_rec)

lemma edge3_weights: "node_weights_of (edge3 ws) = [ws ! 0, ws ! 1, ws ! 2]"
  by (simp add: node_weights_of_def edge3_def eval_nat_numeral upt_rec)

lemma scenario_ops:
  "double_mult 1 (1 / 4) = Some (1 / 4)"
  "double_mult 2 (1 / 2) = Some 1"
  "double_add 0 (1 / 4) = Some (1 / 4)"
  "double_add (1 / 4) 1 = Some (5 / 4)"
  "double_add (5 / 4) (1 / 4) = Some (3 / 2)"
  "double_div (1 / 4) (3 / 2) = Some (6004799503160661 / 2 ^ 55)"
  "double_div 1 (3 / 2) = Some (6004799503160661 / 2 ^ 53)"
  by (simp_all add: dbl)

lemma scenario_values:
  "shape bernstein_edge3 ft eo el 0 (0, 0, 0) = 1 / 4"
  "shape bernstein_edge3 ft eo el (Suc 0) (0, 0, 0) = 1 / 2"
  "shape bernstein_edge3 ft eo el 2 (0, 0, 0) = 1 / 4"
  by (simp_all add: bernstein_edge3_def)

lemma exact_values:
  "shape bernstein_edge3 ft eo el 0 near_minus_09 = 292877994676730127767269742173225 / 2 ^ 108"
  "shape bernstein_edge3 ft eo el (Suc 0) near_minus_09 = 15414631298775266279608179270615 / 2 ^ 107"
  "shape bernstein_edge3 ft eo el 2 near_minus_09 = 811296384146066456669919861801 / 2 ^ 108"
  by (simp_all add: near_minus_09_def bernstein_edge3_def power2_eq_square)

lemma roundings:
  "double_round (292877994676730127767269742173225 / 2 ^ 108) = Some (8128997327403745 / 2 ^ 53)"
  "double_round (15414631298775266279608179270615 / 2 ^ 107) = Some (427841964600197 / 2 ^ 52)"
  "double_round (811296384146066456669919861801 / 2 ^ 108) = Some (720575940379279 / 2 ^ 58)"
  by (simp_all add: dbl)

lemma shape_nearest_doubles:
  "shape (nearest_doubles fe) ft eo el sf p =
     (case double_round (shape fe ft eo el sf p) of None \<Rightarrow> 0 | Some v \<Rightarrow> v)"
  by (simp add: nearest_doubles_def)

lemma unit_values:
  "shape (nearest_doubles bernstein_edge3) ft eo el 0 near_minus_09 = 8128997327403745 / 2 ^ 53"
  "shape (nearest_doubles bernstein_edge3) ft eo el (Suc 0) near_minus_09 =
     427841964600197 / 2 ^ 52"
  "shape (nearest_doubles bernstein_edge3) ft eo el 2 near_minus_09 = 720575940379279 / 2 ^ 58"
  by (simp_all only: shape_nearest_doubles exact_values roundings option.case)


lemma unit_ops:
  "double_mult 1 (8128997327403745 / 2 ^ 53) = Some (8128997327403745 / 2 ^ 53)"
  "double_mult 1 (427841964600197 / 2 ^ 52) = Some (427841964600197 / 2 ^ 52)"
  "double_mult 1 (720575940379279 / 2 ^ 58) = Some (720575940379279 / 2 ^ 58)"
  "double_add 0 (8128997327403745 / 2 ^ 53) = Some (8128997327403745 / 2 ^ 53)"
  "double_add (8128997327403745 / 2 ^ 53) (427841964600197 / 2 ^ 52) =
     Some (8984681256604139 / 2 ^ 53)"
  "double_add (8984681256604139 / 2 ^ 53) (720575940379279 / 2 ^ 58) =
     Some (9007199254740991 / 2 ^ 53)"
  "double_div (8128997327403745 / 2 ^ 53) (9007199254740991 / 2 ^ 53) =
     Some (4064498663701873 / 2 ^ 52)"
  by (simp_all add: dbl)


lemma n_shape_functions_nearest:
  "n_shape_functions (nearest_doubles fe) = n_shape_functions fe"
  by (simp add: nearest_doubles_def)

section \<open>Properties\<close>

subsection \<open>Value\<close>

text \<open>
  C1. For an element that passes the assertions and a shape index \<open>i\<close> below the number of
  shape functions, \<^verbatim>\<open>shape\<close> returns, in one and in three dimensions,
  \<open>w[i]\<cdot>N[i](p)\<close> divided by \<open>\<Sum>\<^sub>s\<^sub>f w[sf]\<cdot>N[sf](p)\<close>. In particular, on a three-node
  element with weights \<open>[1, 2, 1]\<close> where the underlying values are \<open>[1/4, 1/2, 1/4]\<close>, the
  values for \<open>i = 0, 1, 2\<close> are \<open>1/6\<close>, \<open>2/3\<close> and \<open>1/6\<close>.
\<close>

theorem shape_value_formula:
  assumes "n_sf_of fe el ord apl = n_nodes el" and "i < n_sf_of fe el ord apl"
  shows "FE1_shape fe (Some el) ord i p apl =
           Inr (Real_div (numer fe el ord apl p i) (denom fe el ord apl p)) \<and>
         FE3_shape fe (Some el) ord i p apl =
           Inr (Real_div (numer fe el ord apl p i) (denom fe el ord apl p)) \<and>
         (n_nodes el = 3 \<and> map (w el) [0..<3] = [1, 2, 1] \<and>
          map (N fe el ord apl p) [0..<3] = [1 / 4, 1 / 2, 1 / 4] \<longrightarrow>
            FE1_shape fe (Some el) ord i p apl = Inr (Some ([1 / 6, 2 / 3, 1 / 6] ! i)))"
proof -
  have v1: "FE1_shape fe (Some el) ord i p apl =
           Inr (Real_div (numer fe el ord apl p i) (denom fe el ord apl p))"
    using assms by (simp add: FE1_shape_eq)
  have v3: "FE3_shape fe (Some el) ord i p apl =
           Inr (Real_div (numer fe el ord apl p i) (denom fe el ord apl p))"
    using assms by (simp add: FE3_shape_eq)
  have sc: "FE1_shape fe (Some el) ord i p apl = Inr (Some ([1 / 6, 2 / 3, 1 / 6] ! i))"
    if three: "n_nodes el = 3" and ws: "map (w el) [0..<3] = [1, 2, 1]"
      and ns: "map (N fe el ord apl p) [0..<3] = [1 / 4, 1 / 2, 1 / 4]"
  proof -
    have wv: "w el 0 = 1" "w el (Suc 0) = 2" "w el 2 = 1"
      using ws by (simp_all add: eval_nat_numeral upt_rec)
    have nv: "N fe el ord apl p 0 = 1 / 4" "N fe el ord apl p (Suc 0) = 1 / 2"
      "N fe el ord apl p 2 = 1 / 4"
      using ns by (simp_all add: eval_nat_numeral upt_rec)
    have d: "denom fe el ord apl p = 3 / 2"
      using assms(1) three by (simp add: denom_def sum_lessThan_3 wv nv)
    have "i = 0 \<or> i = 1 \<or> i = 2"
      using assms three by auto
    then show ?thesis
      by (auto simp add: v1 d numer_def wv nv Real_div_def)
  qed
  show ?thesis
  proof (intro conjI impI)
    show "FE1_shape fe (Some el) ord i p apl =
           Inr (Real_div (numer fe el ord apl p i) (denom fe el ord apl p))"
      by (rule v1)
    show "FE3_shape fe (Some el) ord i p apl =
           Inr (Real_div (numer fe el ord apl p i) (denom fe el ord apl p))"
      by (rule v3)
    assume "n_nodes el = 3 \<and> map (w el) [0..<3] = [1, 2, 1] \<and>
          map (N fe el ord apl p) [0..<3] = [1 / 4, 1 / 2, 1 / 4]"
    then show "FE1_shape fe (Some el) ord i p apl = Inr (Some ([1 / 6, 2 / 3, 1 / 6] ! i))"
      by (intro sc) simp_all
  qed
qed

theorem shape_value_formula_witness:
  "n_sf_of bernstein_edge3 (edge3 [1, 2, 1]) 2 False = n_nodes (edge3 [1, 2, 1]) \<and>
   2 < n_sf_of bernstein_edge3 (edge3 [1, 2, 1]) 2 False \<and>
   FE1_shape bernstein_edge3 (Some (edge3 [1, 2, 1])) 2 0 (0, 0, 0) False = Inr (Some (1 / 6)) \<and>
   FE1_shape bernstein_edge3 (Some (edge3 [1, 2, 1])) 2 1 (0, 0, 0) False = Inr (Some (2 / 3)) \<and>
   FE1_shape bernstein_edge3 (Some (edge3 [1, 2, 1])) 2 2 (0, 0, 0) False = Inr (Some (1 / 6)) \<and>
   FE3_shape bernstein_tet4 (Some (tet4 [1, 2, 3, 4])) 1 1 (1 / 4, 1 / 4, 1 / 4) False =
     Inr (Some (1 / 5))"
proof -
  have h: "n_sf_of bernstein_edge3 (edge3 [1, 2, 1]) 2 False = n_nodes (edge3 [1, 2, 1])"
    by (simp add: edge3_simps)
  have h3: "n_sf_of bernstein_tet4 (tet4 [1, 2, 3, 4]) 1 False = n_nodes (tet4 [1, 2, 3, 4])"
    by (simp add: tet4_simps)
  have sc: "n_nodes (edge3 [1, 2, 1]) = 3 \<and> map (w (edge3 [1, 2, 1])) [0..<3] = [1, 2, 1] \<and>
          map (N bernstein_edge3 (edge3 [1, 2, 1]) 2 False (0, 0, 0)) [0..<3] = [1 / 4, 1 / 2, 1 / 4]"
    by (simp add: edge3_simps eval_nat_numeral upt_rec)
  have i0: "0 < n_sf_of bernstein_edge3 (edge3 [1, 2, 1]) 2 False"
    and i1: "1 < n_sf_of bernstein_edge3 (edge3 [1, 2, 1]) 2 False"
    and i2: "2 < n_sf_of bernstein_edge3 (edge3 [1, 2, 1]) 2 False"
    by (simp_all add: edge3_simps)
  have j1: "1 < n_sf_of bernstein_tet4 (tet4 [1, 2, 3, 4]) 1 False"
    by (simp add: tet4_simps)
  show ?thesis
    using shape_value_formula [OF h i0, of "(0, 0, 0)"] shape_value_formula [OF h i1, of "(0, 0, 0)"]
      shape_value_formula [OF h i2, of "(0, 0, 0)"]
      shape_value_formula [OF h3 j1, of "(1 / 4, 1 / 4, 1 / 4)"] sc h i2
    by (simp add: numer_def denom_def tet4_simps edge3_simps sum_lessThan_3 sum_lessThan_4
          Real_div_def)
qed

text \<open>
  C2. Partition of unity. Every value that \<^verbatim>\<open>shape\<close> returns is a quotient with the same
  denominator, which is the sum of the numerators. So in exact arithmetic, for an element
  that passes the assertions and a point where the weighted denominator is not zero, the
  calls of \<^verbatim>\<open>shape\<close> for the shape indices \<open>0, \<dots>, n_sf - 1\<close> all return a number, and these
  numbers sum to exactly \<open>1\<close>; in one and in three dimensions. In double precision the sum
  is \<open>1\<close> up to rounding only, as the evaluation after the theorem shows.
\<close>

theorem shape_partition_of_unity:
  assumes "n_sf_of fe el ord apl = n_nodes el" and "denom fe el ord apl p \<noteq> 0"
  shows "(\<exists>vs. map (\<lambda>i. FE1_shape fe (Some el) ord i p apl) [0..<n_sf_of fe el ord apl] =
                map (\<lambda>v. Inr (Some v)) vs \<and> sum_list vs = 1) \<and>
         (\<exists>vs. map (\<lambda>i. FE3_shape fe (Some el) ord i p apl) [0..<n_sf_of fe el ord apl] =
                map (\<lambda>v. Inr (Some v)) vs \<and> sum_list vs = 1)"
proof -
  let ?n = "n_sf_of fe el ord apl"
  let ?vs = "map (\<lambda>i. numer fe el ord apl p i / denom fe el ord apl p) [0..<?n]"
  have total: "sum_list ?vs = 1"
  proof -
    have "sum_list ?vs = (\<Sum>i<?n. numer fe el ord apl p i / denom fe el ord apl p)"
      by (simp add: interv_sum_list_conv_sum_set_nat atLeast0LessThan)
    also have "\<dots> = (\<Sum>i<?n. numer fe el ord apl p i) / denom fe el ord apl p"
      by (simp add: sum_divide_distrib)
    also have "(\<Sum>i<?n. numer fe el ord apl p i) = denom fe el ord apl p"
      by (simp add: numer_def denom_def)
    finally show ?thesis using assms(2) by simp
  qed
  have v1: "map (\<lambda>i. FE1_shape fe (Some el) ord i p apl) [0..<?n] = map (\<lambda>v. Inr (Some v)) ?vs"
    using assms by (simp add: FE1_shape_eq Real_div_def)
  have v3: "map (\<lambda>i. FE3_shape fe (Some el) ord i p apl) [0..<?n] = map (\<lambda>v. Inr (Some v)) ?vs"
    using assms by (simp add: FE3_shape_eq Real_div_def)
  from v1 v3 total show ?thesis by blast
qed

theorem shape_partition_of_unity_witness:
  "n_sf_of bernstein_edge3 (edge3 [1, 2, 1]) 2 False = n_nodes (edge3 [1, 2, 1]) \<and>
   denom bernstein_edge3 (edge3 [1, 2, 1]) 2 False (0, 0, 0) \<noteq> 0 \<and>
   (\<exists>vs. map (\<lambda>i. FE1_shape bernstein_edge3 (Some (edge3 [1, 2, 1])) 2 i (0, 0, 0) False)
             [0..<3] = map (\<lambda>v. Inr (Some v)) vs \<and> sum_list vs = 1) \<and>
   n_sf_of bernstein_tet4 (tet4 [1, 2, 3, 4]) 1 False = n_nodes (tet4 [1, 2, 3, 4]) \<and>
   denom bernstein_tet4 (tet4 [1, 2, 3, 4]) 1 False (1 / 4, 1 / 4, 1 / 4) \<noteq> 0 \<and>
   (\<exists>vs. map (\<lambda>i. FE3_shape bernstein_tet4 (Some (tet4 [1, 2, 3, 4])) 1 i (1 / 4, 1 / 4, 1 / 4)
                    False) [0..<4] = map (\<lambda>v. Inr (Some v)) vs \<and> sum_list vs = 1)"
proof -
  have h1: "n_sf_of bernstein_edge3 (edge3 [1, 2, 1]) 2 False = n_nodes (edge3 [1, 2, 1])"
    by (simp add: edge3_simps)
  have d1: "denom bernstein_edge3 (edge3 [1, 2, 1]) 2 False (0, 0, 0) \<noteq> 0"
    by (simp add: denom_def edge3_simps sum_lessThan_3)
  have h3: "n_sf_of bernstein_tet4 (tet4 [1, 2, 3, 4]) 1 False = n_nodes (tet4 [1, 2, 3, 4])"
    by (simp add: tet4_simps)
  have d3: "denom bernstein_tet4 (tet4 [1, 2, 3, 4]) 1 False (1 / 4, 1 / 4, 1 / 4) \<noteq> 0"
    by (simp add: denom_def tet4_simps sum_lessThan_4)
  show ?thesis
    using shape_partition_of_unity [OF h1 d1] shape_partition_of_unity [OF h3 d3] h1 d1 h3 d3
    by (simp only: edge3_simps tet4_simps simp_thms)
qed

text \<open>
  In double precision, on the three-node edge with the weights \<open>[1, 2, 1]\<close> and the underlying
  values \<open>[1/4, 1/2, 1/4]\<close>, \<^verbatim>\<open>shape\<close> returns the doubles nearest to \<open>1/6\<close>, \<open>2/3\<close> and \<open>1/6\<close>.
  Their sum is \<open>1 - 2\<^sup>-\<^sup>5\<^sup>4\<close>; added in double precision it is \<open>1 - 2\<^sup>-\<^sup>5\<^sup>3\<close>.
\<close>

theorem shape_partition_of_unity_counterexample:
  "FE1_shape_double bernstein_edge3 (Some (edge3 [1, 2, 1])) 2 0 (0, 0, 0) False =
     Inr (Some (6004799503160661 / 2 ^ 55)) \<and>
   FE1_shape_double bernstein_edge3 (Some (edge3 [1, 2, 1])) 2 1 (0, 0, 0) False =
     Inr (Some (6004799503160661 / 2 ^ 53)) \<and>
   FE1_shape_double bernstein_edge3 (Some (edge3 [1, 2, 1])) 2 2 (0, 0, 0) False =
     Inr (Some (6004799503160661 / 2 ^ 55)) \<and>
   6004799503160661 / 2 ^ 55 + 6004799503160661 / 2 ^ 53 + 6004799503160661 / 2 ^ 55 =
     (1 :: real) - 1 / 2 ^ 54 \<and>
   6004799503160661 / 2 ^ 55 + 6004799503160661 / 2 ^ 53 + 6004799503160661 / 2 ^ 55 \<noteq>
     (1 :: real) \<and>
   double_sum [6004799503160661 / 2 ^ 55, 6004799503160661 / 2 ^ 53,
     6004799503160661 / 2 ^ 55] = Some (1 - 1 / 2 ^ 53)"
proof -
  have v0: "FE1_shape_double bernstein_edge3 (Some (edge3 [1, 2, 1])) 2 0 (0, 0, 0) False =
     Inr (Some (6004799503160661 / 2 ^ 55))"
    by (simp add: FE1_shape_double_def edge3_weights for_loop_3 shape_body_double_def
          scenario_values scenario_ops edge3_simps(1) Let_def n_shape_functions_edge3)
  have v1: "FE1_shape_double bernstein_edge3 (Some (edge3 [1, 2, 1])) 2 1 (0, 0, 0) False =
     Inr (Some (6004799503160661 / 2 ^ 53))"
    by (simp add: FE1_shape_double_def edge3_weights for_loop_3 shape_body_double_def
          scenario_values scenario_ops edge3_simps(1) Let_def n_shape_functions_edge3)
  have v2: "FE1_shape_double bernstein_edge3 (Some (edge3 [1, 2, 1])) 2 2 (0, 0, 0) False =
     Inr (Some (6004799503160661 / 2 ^ 55))"
    by (simp add: FE1_shape_double_def edge3_weights for_loop_3 shape_body_double_def
          scenario_values scenario_ops edge3_simps(1) Let_def n_shape_functions_edge3)
  have e: "6004799503160661 / 2 ^ 55 + 6004799503160661 / 2 ^ 53 + 6004799503160661 / 2 ^ 55 =
     (1 :: real) - 1 / 2 ^ 54"
    by simp
  have ne: "6004799503160661 / 2 ^ 55 + 6004799503160661 / 2 ^ 53 +
     6004799503160661 / 2 ^ 55 \<noteq> (1 :: real)"
    by simp
  have a1: "double_add 0 (6004799503160661 / 2 ^ 55) = Some (6004799503160661 / 2 ^ 55)"
    by (simp add: dbl)
  have a2: "double_add (6004799503160661 / 2 ^ 55) (6004799503160661 / 2 ^ 53) =
      Some (7505999378950826 / 2 ^ 53)"
    by (simp add: dbl)
  have a3: "double_add (7505999378950826 / 2 ^ 53) (6004799503160661 / 2 ^ 55) =
      Some (1 - 1 / 2 ^ 53)"
    by (simp add: dbl)
  have s: "double_sum [6004799503160661 / 2 ^ 55, 6004799503160661 / 2 ^ 53,
     6004799503160661 / 2 ^ 55] = Some (1 - 1 / 2 ^ 53)"
    using a1 a2 a3 by (simp add: double_sum_def)
  show ?thesis
    using v0 v1 v2 e ne s by (intro conjI)
qed

text \<open>
  C7. Degenerate reduction. When every node weight is \<open>1\<close>, for an element that passes the
  assertions and a shape index below the number of shape functions, \<^verbatim>\<open>shape\<close> returns in
  exact arithmetic the quotient of \<open>N[i](p)\<close> by the sum of the \<open>N[sf](p)\<close>, the values
  being those that \<^verbatim>\<open>FEInterface\<close> reports; this is \<open>N[i](p)\<close> when those values sum to
  \<open>1\<close>, as the functions of the Bernstein basis do. In double precision the result is
  \<open>N[i](p)\<close> up to rounding only, as the evaluation after the theorem shows.
\<close>

theorem shape_unit_weights_quotient:
  assumes "n_sf_of fe el ord apl = n_nodes el" and "i < n_sf_of fe el ord apl"
    and "\<forall>sf<n_nodes el. w el sf = 1"
  shows "FE1_shape fe (Some el) ord i p apl =
           Inr (Real_div (N fe el ord apl p i)
                  (\<Sum>sf<n_sf_of fe el ord apl. N fe el ord apl p sf)) \<and>
         FE3_shape fe (Some el) ord i p apl =
           Inr (Real_div (N fe el ord apl p i)
                  (\<Sum>sf<n_sf_of fe el ord apl. N fe el ord apl p sf)) \<and>
         ((\<Sum>sf<n_sf_of fe el ord apl. N fe el ord apl p sf) = 1 \<longrightarrow>
            FE1_shape fe (Some el) ord i p apl = Inr (Some (N fe el ord apl p i)) \<and>
            FE3_shape fe (Some el) ord i p apl = Inr (Some (N fe el ord apl p i)))"
proof -
  have d: "denom fe el ord apl p = (\<Sum>sf<n_sf_of fe el ord apl. N fe el ord apl p sf)"
    using assms(1,3) by (simp add: denom_def)
  have n: "numer fe el ord apl p i = N fe el ord apl p i"
    using assms(1,2,3) by (simp add: numer_def)
  have v1: "FE1_shape fe (Some el) ord i p apl =
           Inr (Real_div (N fe el ord apl p i)
                  (\<Sum>sf<n_sf_of fe el ord apl. N fe el ord apl p sf))"
    using assms(1,2) by (simp add: FE1_shape_eq d n)
  have v3: "FE3_shape fe (Some el) ord i p apl =
           Inr (Real_div (N fe el ord apl p i)
                  (\<Sum>sf<n_sf_of fe el ord apl. N fe el ord apl p sf))"
    using assms(1,2) by (simp add: FE3_shape_eq d n)
  show ?thesis
    using v1 v3 by (simp add: Real_div_def)
qed

theorem shape_unit_weights_quotient_witness:
  "n_sf_of bernstein_edge3 (edge3 [1, 1, 1]) 2 False = n_nodes (edge3 [1, 1, 1]) \<and>
   1 < n_sf_of bernstein_edge3 (edge3 [1, 1, 1]) 2 False \<and>
   map (w (edge3 [1, 1, 1])) [0..<n_nodes (edge3 [1, 1, 1])] = [1, 1, 1] \<and>
   (\<Sum>sf<n_sf_of bernstein_edge3 (edge3 [1, 1, 1]) 2 False.
       N bernstein_edge3 (edge3 [1, 1, 1]) 2 False (1 / 2, 0, 0) sf) = 1 \<and>
   FE1_shape bernstein_edge3 (Some (edge3 [1, 1, 1])) 2 1 (1 / 2, 0, 0) False = Inr (Some (3 / 8)) \<and>
   n_sf_of bernstein_tet4 (tet4 [1, 1, 1, 1]) 1 False = n_nodes (tet4 [1, 1, 1, 1]) \<and>
   2 < n_sf_of bernstein_tet4 (tet4 [1, 1, 1, 1]) 1 False \<and>
   map (w (tet4 [1, 1, 1, 1])) [0..<n_nodes (tet4 [1, 1, 1, 1])] = [1, 1, 1, 1] \<and>
   (\<Sum>sf<n_sf_of bernstein_tet4 (tet4 [1, 1, 1, 1]) 1 False.
       N bernstein_tet4 (tet4 [1, 1, 1, 1]) 1 False (1 / 8, 1 / 4, 1 / 2) sf) = 1 \<and>
   FE3_shape bernstein_tet4 (Some (tet4 [1, 1, 1, 1])) 1 2 (1 / 8, 1 / 4, 1 / 2) False =
     Inr (Some (1 / 4))"
proof -
  have h1: "n_sf_of bernstein_edge3 (edge3 [1, 1, 1]) 2 False = n_nodes (edge3 [1, 1, 1])"
    by (simp add: edge3_simps)
  have i1: "1 < n_sf_of bernstein_edge3 (edge3 [1, 1, 1]) 2 False"
    by (simp add: edge3_simps)
  have w1: "\<forall>sf<n_nodes (edge3 [1, 1, 1]). w (edge3 [1, 1, 1]) sf = 1"
    by (simp add: edge3_simps eval_nat_numeral less_Suc_eq)
  have s1: "(\<Sum>sf<n_sf_of bernstein_edge3 (edge3 [1, 1, 1]) 2 False.
       N bernstein_edge3 (edge3 [1, 1, 1]) 2 False (1 / 2, 0, 0) sf) = 1"
    by (simp add: edge3_simps sum_lessThan_3 power2_eq_square)
  have h3: "n_sf_of bernstein_tet4 (tet4 [1, 1, 1, 1]) 1 False = n_nodes (tet4 [1, 1, 1, 1])"
    by (simp add: tet4_simps)
  have i3: "2 < n_sf_of bernstein_tet4 (tet4 [1, 1, 1, 1]) 1 False"
    by (simp add: tet4_simps)
  have w3: "\<forall>sf<n_nodes (tet4 [1, 1, 1, 1]). w (tet4 [1, 1, 1, 1]) sf = 1"
    by (simp add: tet4_simps eval_nat_numeral less_Suc_eq)
  have s3: "(\<Sum>sf<n_sf_of bernstein_tet4 (tet4 [1, 1, 1, 1]) 1 False.
       N bernstein_tet4 (tet4 [1, 1, 1, 1]) 1 False (1 / 8, 1 / 4, 1 / 2) sf) = 1"
    by (simp add: tet4_simps sum_lessThan_4)
  have v1: "N bernstein_edge3 (edge3 [1, 1, 1]) 2 False (1 / 2, 0, 0) 1 = 3 / 8"
    by (simp add: edge3_simps)
  have v3: "N bernstein_tet4 (tet4 [1, 1, 1, 1]) 1 False (1 / 8, 1 / 4, 1 / 2) 2 = 1 / 4"
    by (simp add: tet4_simps)
  have m1: "map (w (edge3 [1, 1, 1])) [0..<n_nodes (edge3 [1, 1, 1])] = [1, 1, 1]"
    by (simp add: edge3_simps eval_nat_numeral upt_rec)
  have m3: "map (w (tet4 [1, 1, 1, 1])) [0..<n_nodes (tet4 [1, 1, 1, 1])] = [1, 1, 1, 1]"
    by (simp add: tet4_simps eval_nat_numeral upt_rec)
  have r1: "FE1_shape bernstein_edge3 (Some (edge3 [1, 1, 1])) 2 1 (1 / 2, 0, 0) False =
      Inr (Some (3 / 8))"
    using shape_unit_weights_quotient [OF h1 i1 w1, of "(1 / 2, 0, 0)", THEN conjunct2,
        THEN conjunct2, THEN mp, OF s1, THEN conjunct1]
    by (simp only: v1)
  have r3: "FE3_shape bernstein_tet4 (Some (tet4 [1, 1, 1, 1])) 1 2 (1 / 8, 1 / 4, 1 / 2) False =
      Inr (Some (1 / 4))"
    using shape_unit_weights_quotient [OF h3 i3 w3, of "(1 / 8, 1 / 4, 1 / 2)", THEN conjunct2,
        THEN conjunct2, THEN mp, OF s3, THEN conjunct2]
    by (simp only: v3)
  show ?thesis
    using h1 i1 m1 s1 r1 h3 i3 m3 s3 r3 by (intro conjI)
qed

text \<open>
  In double precision, on the three-node edge with the weights \<open>[1, 1, 1]\<close>, at the double
  nearest to \<open>- 9/10\<close> and with the doubles nearest to the values of the quadratic Bernstein
  basis there, \<^verbatim>\<open>shape\<close> returns \<open>4064498663701873 / 2\<^sup>5\<^sup>2\<close> for the shape index \<open>0\<close>,
  where the underlying value is \<open>8128997327403745 / 2\<^sup>5\<^sup>3\<close>: the three values add up to
  \<open>1 - 2\<^sup>-\<^sup>5\<^sup>3\<close> in double precision.
\<close>

theorem shape_unit_weights_counterexample:
  "map (w (edge3 [1, 1, 1])) [0..<3] = [1, 1, 1] \<and>
   N (nearest_doubles bernstein_edge3) (edge3 [1, 1, 1]) 2 False near_minus_09 0 =
     8128997327403745 / 2 ^ 53 \<and>
   FE1_shape_double (nearest_doubles bernstein_edge3) (Some (edge3 [1, 1, 1])) 2 0
     near_minus_09 False = Inr (Some (4064498663701873 / 2 ^ 52)) \<and>
   (4064498663701873 / 2 ^ 52 :: real) \<noteq> 8128997327403745 / 2 ^ 53"
proof -
  have ws: "map (w (edge3 [1, 1, 1])) [0..<3] = [1, 1, 1]"
    by (simp add: edge3_simps eval_nat_numeral upt_rec)
  have n0: "N (nearest_doubles bernstein_edge3) (edge3 [1, 1, 1]) 2 False near_minus_09 0 =
     8128997327403745 / 2 ^ 53"
    by (simp only: N_def unit_values)
  have v: "FE1_shape_double (nearest_doubles bernstein_edge3) (Some (edge3 [1, 1, 1])) 2 0
     near_minus_09 False = Inr (Some (4064498663701873 / 2 ^ 52))"
    using unit_ops
    by (simp add: FE1_shape_double_def edge3_weights for_loop_3 shape_body_double_def
          unit_values edge3_simps(1) Let_def n_shape_functions_nearest
          n_shape_functions_edge3)
  have ne: "(4064498663701873 / 2 ^ 52 :: real) \<noteq> 8128997327403745 / 2 ^ 53"
    by simp
  show ?thesis
    using ws n0 v ne by (intro conjI)
qed

text \<open>
  C10. A shape index \<open>i\<close> at or beyond the number of shape functions is not checked: for an
  element that passes the assertions and a point where the weighted denominator is not zero,
  \<^verbatim>\<open>shape\<close> raises no error and returns exactly \<open>0\<close>.
\<close>

theorem shape_index_out_of_range:
  assumes "n_sf_of fe el ord apl = n_nodes el" and "n_sf_of fe el ord apl \<le> i"
    and "denom fe el ord apl p \<noteq> 0"
  shows "FE1_shape fe (Some el) ord i p apl = Inr (Some 0) \<and>
         FE3_shape fe (Some el) ord i p apl = Inr (Some 0)"
  using assms by (simp add: FE1_shape_eq FE3_shape_eq Real_div_def)

theorem shape_index_out_of_range_witness:
  "n_sf_of bernstein_edge3 (edge3 [1, 2, 1]) 2 False = n_nodes (edge3 [1, 2, 1]) \<and>
   n_sf_of bernstein_edge3 (edge3 [1, 2, 1]) 2 False \<le> 3 \<and>
   denom bernstein_edge3 (edge3 [1, 2, 1]) 2 False (0, 0, 0) \<noteq> 0 \<and>
   FE1_shape bernstein_edge3 (Some (edge3 [1, 2, 1])) 2 3 (0, 0, 0) False = Inr (Some 0) \<and>
   n_sf_of bernstein_tet4 (tet4 [1, 2, 3, 4]) 1 False = n_nodes (tet4 [1, 2, 3, 4]) \<and>
   n_sf_of bernstein_tet4 (tet4 [1, 2, 3, 4]) 1 False \<le> 7 \<and>
   denom bernstein_tet4 (tet4 [1, 2, 3, 4]) 1 False (1 / 4, 1 / 4, 1 / 4) \<noteq> 0 \<and>
   FE3_shape bernstein_tet4 (Some (tet4 [1, 2, 3, 4])) 1 7 (1 / 4, 1 / 4, 1 / 4) False =
     Inr (Some 0)"
proof -
  have h1: "n_sf_of bernstein_edge3 (edge3 [1, 2, 1]) 2 False = n_nodes (edge3 [1, 2, 1])"
    by (simp add: edge3_simps)
  have i1: "n_sf_of bernstein_edge3 (edge3 [1, 2, 1]) 2 False \<le> 3"
    by (simp add: edge3_simps)
  have d1: "denom bernstein_edge3 (edge3 [1, 2, 1]) 2 False (0, 0, 0) \<noteq> 0"
    by (simp add: denom_def edge3_simps sum_lessThan_3)
  have h3: "n_sf_of bernstein_tet4 (tet4 [1, 2, 3, 4]) 1 False = n_nodes (tet4 [1, 2, 3, 4])"
    by (simp add: tet4_simps)
  have i3: "n_sf_of bernstein_tet4 (tet4 [1, 2, 3, 4]) 1 False \<le> 7"
    by (simp add: tet4_simps)
  have d3: "denom bernstein_tet4 (tet4 [1, 2, 3, 4]) 1 False (1 / 4, 1 / 4, 1 / 4) \<noteq> 0"
    by (simp add: denom_def tet4_simps sum_lessThan_4)
  show ?thesis
    using shape_index_out_of_range [OF h1 i1 d1] shape_index_out_of_range [OF h3 i3 d3]
      h1 i1 d1 h3 i3 d3
    by (simp only: simp_thms)
qed

subsection \<open>First derivative\<close>

text \<open>
  C3. For an element that passes the assertions, a shape index below the number of shape
  functions and a point where the denominator is not zero, \<^verbatim>\<open>shape_deriv\<close> returns
  \<open>(denom\<cdot>numerGrad - numer\<cdot>denomGrad) / denom\<^sup>2\<close>, in one dimension (direction \<open>0\<close>) and in
  three (direction \<open>j\<close>). This is the analytic derivative of the value: when the derivatives
  that \<^verbatim>\<open>FEInterface\<close> reports are the derivatives of its values along the direction, the
  value returned by \<^verbatim>\<open>shape\<close>, as a function of the displacement of the point along the
  direction, has the number returned by \<^verbatim>\<open>shape_deriv\<close> as its derivative.
\<close>

theorem shape_deriv_quotient_rule:
  assumes "n_sf_of fe el ord apl = n_nodes el" and "i < n_sf_of fe el ord apl"
    and "denom fe el ord apl p \<noteq> 0"
  shows "FE1_shape_deriv fe (Some el) ord i 0 p apl =
           Inr (Some ((denom fe el ord apl p * numerGrad fe el ord apl p 0 i -
                       numer fe el ord apl p i * denomGrad fe el ord apl p 0) /
                      (denom fe el ord apl p)\<^sup>2)) \<and>
         FE3_shape_deriv fe (Some el) ord i j p apl =
           Inr (Some ((denom fe el ord apl p * numerGrad fe el ord apl p j i -
                       numer fe el ord apl p i * denomGrad fe el ord apl p j) /
                      (denom fe el ord apl p)\<^sup>2)) \<and>
         ((\<forall>sf<n_sf_of fe el ord apl.
             ((\<lambda>t. N fe el ord apl (shift p 0 t) sf) has_real_derivative
                dN fe el ord apl p 0 sf) (at 0)) \<longrightarrow>
          ((\<lambda>t. value_of (FE1_shape fe (Some el) ord i (shift p 0 t) apl)) has_real_derivative
             value_of (FE1_shape_deriv fe (Some el) ord i 0 p apl)) (at 0)) \<and>
         (j < 3 \<and>
          (\<forall>sf<n_sf_of fe el ord apl.
             ((\<lambda>t. N fe el ord apl (shift p j t) sf) has_real_derivative
                dN fe el ord apl p j sf) (at 0)) \<longrightarrow>
          ((\<lambda>t. value_of (FE3_shape fe (Some el) ord i (shift p j t) apl)) has_real_derivative
             value_of (FE3_shape_deriv fe (Some el) ord i j p apl)) (at 0))"
proof -
  have i: "i < n_nodes el"
    using assms(1,2) by simp
  have d1: "FE1_shape_deriv fe (Some el) ord i 0 p apl =
           Inr (Some ((denom fe el ord apl p * numerGrad fe el ord apl p 0 i -
                       numer fe el ord apl p i * denomGrad fe el ord apl p 0) /
                      (denom fe el ord apl p)\<^sup>2))"
    by (rule FE1_shape_deriv_value [OF assms(1) i assms(3)])
  have d3: "FE3_shape_deriv fe (Some el) ord i j p apl =
           Inr (Some ((denom fe el ord apl p * numerGrad fe el ord apl p j i -
                       numer fe el ord apl p i * denomGrad fe el ord apl p j) /
                      (denom fe el ord apl p)\<^sup>2))"
    by (rule FE3_shape_deriv_value [OF assms(1) i assms(3)])
  have a1: "((\<lambda>t. value_of (FE1_shape fe (Some el) ord i (shift p 0 t) apl)) has_real_derivative
             value_of (FE1_shape_deriv fe (Some el) ord i 0 p apl)) (at 0)"
    if "\<forall>sf<n_sf_of fe el ord apl.
             ((\<lambda>t. N fe el ord apl (shift p 0 t) sf) has_real_derivative
                dN fe el ord apl p 0 sf) (at 0)"
    using ratio_has_derivative [OF that assms(3) assms(2)]
    by (simp only: value_of_FE1_shape [OF assms(1) i] d1) (simp add: value_of_def)
  have a3: "((\<lambda>t. value_of (FE3_shape fe (Some el) ord i (shift p j t) apl)) has_real_derivative
             value_of (FE3_shape_deriv fe (Some el) ord i j p apl)) (at 0)"
    if "\<forall>sf<n_sf_of fe el ord apl.
             ((\<lambda>t. N fe el ord apl (shift p j t) sf) has_real_derivative
                dN fe el ord apl p j sf) (at 0)"
    using ratio_has_derivative [OF that assms(3) assms(2)]
    by (simp only: value_of_FE3_shape [OF assms(1) i] d3) (simp add: value_of_def)
  show ?thesis
    using d1 d3 a1 a3 by (intro conjI impI) simp_all
qed

theorem shape_deriv_quotient_rule_witness:
  "n_sf_of bernstein_edge3 (edge3 [1, 2, 1]) 2 False = n_nodes (edge3 [1, 2, 1]) \<and>
   1 < n_sf_of bernstein_edge3 (edge3 [1, 2, 1]) 2 False \<and>
   denom bernstein_edge3 (edge3 [1, 2, 1]) 2 False (1 / 2, 0, 0) \<noteq> 0 \<and>
   FE1_shape_deriv bernstein_edge3 (Some (edge3 [1, 2, 1])) 2 1 0 (1 / 2, 0, 0) False =
     Inr (Some (- 64 / 121)) \<and>
   ((\<lambda>t. value_of (FE1_shape bernstein_edge3 (Some (edge3 [1, 2, 1])) 2 1
                      (shift (1 / 2, 0, 0) 0 t) False)) has_real_derivative - 64 / 121) (at 0) \<and>
   n_sf_of bernstein_tet4 (tet4 [1, 2, 3, 4]) 1 False = n_nodes (tet4 [1, 2, 3, 4]) \<and>
   1 < n_sf_of bernstein_tet4 (tet4 [1, 2, 3, 4]) 1 False \<and>
   denom bernstein_tet4 (tet4 [1, 2, 3, 4]) 1 False (1 / 4, 1 / 4, 1 / 4) \<noteq> 0 \<and>
   FE3_shape_deriv bernstein_tet4 (Some (tet4 [1, 2, 3, 4])) 1 1 1 (1 / 4, 1 / 4, 1 / 4) False =
     Inr (Some (- 4 / 25)) \<and>
   ((\<lambda>t. value_of (FE3_shape bernstein_tet4 (Some (tet4 [1, 2, 3, 4])) 1 1
                      (shift (1 / 4, 1 / 4, 1 / 4) 1 t) False)) has_real_derivative - 4 / 25) (at 0)"
proof -
  have h1: "n_sf_of bernstein_edge3 (edge3 [1, 2, 1]) 2 False = n_nodes (edge3 [1, 2, 1])"
    by (simp add: edge3_simps)
  have i1: "1 < n_sf_of bernstein_edge3 (edge3 [1, 2, 1]) 2 False"
    by (simp add: edge3_simps)
  have d1: "denom bernstein_edge3 (edge3 [1, 2, 1]) 2 False (1 / 2, 0, 0) \<noteq> 0"
    by (simp add: denom_def edge3_simps sum_lessThan_3 power2_eq_square)
  have u1: "\<forall>sf<n_sf_of bernstein_edge3 (edge3 [1, 2, 1]) 2 False.
     ((\<lambda>t. N bernstein_edge3 (edge3 [1, 2, 1]) 2 False (shift (1 / 2, 0, 0) 0 t) sf)
        has_real_derivative dN bernstein_edge3 (edge3 [1, 2, 1]) 2 False (1 / 2, 0, 0) 0 sf) (at 0)"
    unfolding edge3_simps(3) by (intro allI impI edge3_derivs)
  have v1: "(denom bernstein_edge3 (edge3 [1, 2, 1]) 2 False (1 / 2, 0, 0) *
               numerGrad bernstein_edge3 (edge3 [1, 2, 1]) 2 False (1 / 2, 0, 0) 0 1 -
             numer bernstein_edge3 (edge3 [1, 2, 1]) 2 False (1 / 2, 0, 0) 1 *
               denomGrad bernstein_edge3 (edge3 [1, 2, 1]) 2 False (1 / 2, 0, 0) 0) /
            (denom bernstein_edge3 (edge3 [1, 2, 1]) 2 False (1 / 2, 0, 0))\<^sup>2 = - 64 / 121"
    by (simp add: denom_def numer_def numerGrad_def denomGrad_def edge3_simps sum_lessThan_3
          power2_eq_square)
  have h3: "n_sf_of bernstein_tet4 (tet4 [1, 2, 3, 4]) 1 False = n_nodes (tet4 [1, 2, 3, 4])"
    by (simp add: tet4_simps)
  have i3: "1 < n_sf_of bernstein_tet4 (tet4 [1, 2, 3, 4]) 1 False"
    by (simp add: tet4_simps)
  have d3: "denom bernstein_tet4 (tet4 [1, 2, 3, 4]) 1 False (1 / 4, 1 / 4, 1 / 4) \<noteq> 0"
    by (simp add: denom_def tet4_simps sum_lessThan_4)
  have u3: "(1::nat) < 3 \<and> (\<forall>sf<n_sf_of bernstein_tet4 (tet4 [1, 2, 3, 4]) 1 False.
     ((\<lambda>t. N bernstein_tet4 (tet4 [1, 2, 3, 4]) 1 False (shift (1 / 4, 1 / 4, 1 / 4) 1 t) sf)
        has_real_derivative dN bernstein_tet4 (tet4 [1, 2, 3, 4]) 1 False (1 / 4, 1 / 4, 1 / 4) 1 sf)
       (at 0))"
    unfolding tet4_simps(3) by (intro conjI allI impI tet4_derivs) simp_all
  have v3: "(denom bernstein_tet4 (tet4 [1, 2, 3, 4]) 1 False (1 / 4, 1 / 4, 1 / 4) *
               numerGrad bernstein_tet4 (tet4 [1, 2, 3, 4]) 1 False (1 / 4, 1 / 4, 1 / 4) 1 1 -
             numer bernstein_tet4 (tet4 [1, 2, 3, 4]) 1 False (1 / 4, 1 / 4, 1 / 4) 1 *
               denomGrad bernstein_tet4 (tet4 [1, 2, 3, 4]) 1 False (1 / 4, 1 / 4, 1 / 4) 1) /
            (denom bernstein_tet4 (tet4 [1, 2, 3, 4]) 1 False (1 / 4, 1 / 4, 1 / 4))\<^sup>2 = - 4 / 25"
    by (simp add: denom_def numer_def numerGrad_def denomGrad_def tet4_simps sum_lessThan_4
          power2_eq_square)
  note t1 = shape_deriv_quotient_rule [OF h1 i1 d1, of 0]
  note t3 = shape_deriv_quotient_rule [OF h3 i3 d3, of 1]
  have r1: "FE1_shape_deriv bernstein_edge3 (Some (edge3 [1, 2, 1])) 2 1 0 (1 / 2, 0, 0) False =
     Inr (Some (- 64 / 121))"
    using t1 by (simp only: v1)
  have a1: "((\<lambda>t. value_of (FE1_shape bernstein_edge3 (Some (edge3 [1, 2, 1])) 2 1
                      (shift (1 / 2, 0, 0) 0 t) False)) has_real_derivative - 64 / 121) (at 0)"
    using t1 [THEN conjunct2, THEN conjunct2, THEN conjunct1, THEN mp, OF u1]
    by (simp only: r1 value_of_Some)
  have r3: "FE3_shape_deriv bernstein_tet4 (Some (tet4 [1, 2, 3, 4])) 1 1 1 (1 / 4, 1 / 4, 1 / 4)
       False = Inr (Some (- 4 / 25))"
    using t3 by (simp only: v3)
  have a3: "((\<lambda>t. value_of (FE3_shape bernstein_tet4 (Some (tet4 [1, 2, 3, 4])) 1 1
                      (shift (1 / 4, 1 / 4, 1 / 4) 1 t) False)) has_real_derivative - 4 / 25) (at 0)"
    using t3 [THEN conjunct2, THEN conjunct2, THEN conjunct2, THEN mp, OF u3]
    by (simp only: r3 value_of_Some)
  show ?thesis
    using h1 i1 d1 r1 a1 h3 i3 d3 r3 a3 by (intro conjI)
qed

subsection \<open>Second derivative\<close>

text \<open>
  C6. For an element that passes the assertions, a shape index below the number of shape
  functions and a point where the denominator is not zero, the second derivative in one
  dimension returns
  \<open>(denom\<^sup>2\<cdot>(denom\<cdot>numerHess - numer\<cdot>denomHess) -
    (denom\<cdot>numerGrad - numer\<cdot>denomGrad)\<cdot>2\<cdot>denom\<cdot>denomGrad) / denom\<^sup>4\<close>.
\<close>

theorem shape_second_deriv_1D_formula:
  assumes "n_sf_of fe el ord apl = n_nodes el" and "i < n_sf_of fe el ord apl"
    and "denom fe el ord apl p \<noteq> 0"
  shows "FE1_shape_second_deriv fe (Some el) ord i 0 p apl =
           Inr (Some (((denom fe el ord apl p)\<^sup>2 *
                         (denom fe el ord apl p * numerHess fe el ord apl p 0 i -
                          numer fe el ord apl p i * denomHess fe el ord apl p 0) -
                       (denom fe el ord apl p * numerGrad fe el ord apl p 0 i -
                          numer fe el ord apl p i * denomGrad fe el ord apl p 0) *
                         2 * denom fe el ord apl p * denomGrad fe el ord apl p 0) /
                      (denom fe el ord apl p) ^ 4))"
  using assms
  by (simp add: FE1_shape_second_deriv_eq Let_def Real_div_def power2_eq_square power4_eq_xxxx)

theorem shape_second_deriv_1D_formula_witness:
  "n_sf_of bernstein_edge3 (edge3 [1, 2, 1]) 2 False = n_nodes (edge3 [1, 2, 1]) \<and>
   1 < n_sf_of bernstein_edge3 (edge3 [1, 2, 1]) 2 False \<and>
   denom bernstein_edge3 (edge3 [1, 2, 1]) 2 False (1 / 2, 0, 0) \<noteq> 0 \<and>
   FE1_shape_second_deriv bernstein_edge3 (Some (edge3 [1, 2, 1])) 2 1 0 (1 / 2, 0, 0) False =
     Inr (Some (- 1920 / 1331))"
proof -
  have h1: "n_sf_of bernstein_edge3 (edge3 [1, 2, 1]) 2 False = n_nodes (edge3 [1, 2, 1])"
    by (simp add: edge3_simps)
  have i1: "1 < n_sf_of bernstein_edge3 (edge3 [1, 2, 1]) 2 False"
    by (simp add: edge3_simps)
  have d1: "denom bernstein_edge3 (edge3 [1, 2, 1]) 2 False (1 / 2, 0, 0) \<noteq> 0"
    by (simp add: denom_def edge3_simps sum_lessThan_3 power2_eq_square)
  have dv: "denom bernstein_edge3 (edge3 [1, 2, 1]) 2 False (1 / 2, 0, 0) = 11 / 8"
    "numer bernstein_edge3 (edge3 [1, 2, 1]) 2 False (1 / 2, 0, 0) 1 = 3 / 4"
    "numerGrad bernstein_edge3 (edge3 [1, 2, 1]) 2 False (1 / 2, 0, 0) 0 1 = - 1"
    "denomGrad bernstein_edge3 (edge3 [1, 2, 1]) 2 False (1 / 2, 0, 0) 0 = - 1 / 2"
    "numerHess bernstein_edge3 (edge3 [1, 2, 1]) 2 False (1 / 2, 0, 0) 0 1 = - 2"
    "denomHess bernstein_edge3 (edge3 [1, 2, 1]) 2 False (1 / 2, 0, 0) 0 = - 1"
    by (simp_all add: denom_def numer_def numerGrad_def denomGrad_def numerHess_def denomHess_def
          edge3_simps sum_lessThan_3 power2_eq_square)
  show ?thesis
    using shape_second_deriv_1D_formula [OF h1 i1 d1] h1 i1 d1
    by (simp only: dv) (simp add: power2_eq_square power4_eq_xxxx)
qed

text \<open>
  C4. For a mixed index \<open>j\<close> with the axes \<open>(j1, j2)\<close> the specification sums the weighted
  first derivatives along \<open>j1\<close> into \<open>gradaSum\<close> and those along \<open>j2\<close> into \<open>gradbSum\<close>, every
  node counted once, and returns
  \<open>(denom\<cdot>numerH - numerA\<cdot>gradbSum - numer\<cdot>hessSum - numerB\<cdot>gradaSum +
    2\<cdot>gradaSum\<cdot>numer\<cdot>gradbSum/denom) / denom\<^sup>2\<close>.
  The function does not: on the tetrahedron with weights \<open>[1, 2, 3, 4]\<close>, at the point
  \<open>(1/4, 1/4, 1/4)\<close>, for shape function \<open>1\<close> and the index \<open>j = 1\<close> (axes \<open>0\<close> and \<open>1\<close>), it
  returns \<open>0\<close> where the formula gives \<open>- 64/125\<close>.
\<close>

theorem second_deriv_3D_mixed_sums_wrong:
  "FE3_shape_second_deriv bernstein_tet4 (Some (tet4 [1, 2, 3, 4])) 1 1 1 (1 / 4, 1 / 4, 1 / 4)
     False = Inr (Some 0) \<and>
   spec_second_deriv_3D bernstein_tet4 (tet4 [1, 2, 3, 4]) 1 False (1 / 4, 1 / 4, 1 / 4) 1 1 0 1 =
     - 64 / 125"
proof -
  have h: "n_sf_of bernstein_tet4 (tet4 [1, 2, 3, 4]) 1 False = n_nodes (tet4 [1, 2, 3, 4])"
    by (simp add: tet4_simps)
  have code: "FE3_shape_second_deriv bernstein_tet4 (Some (tet4 [1, 2, 3, 4])) 1 1 1
      (1 / 4, 1 / 4, 1 / 4) False = Inr (Some 0)"
    by (simp add: FE3_shape_second_deriv_def second_deriv_switch_def FE3_after_switch_eq [OF h]
          Let_def tet4_values tet4_simps del: One_nat_def)
  have spec: "spec_second_deriv_3D bernstein_tet4 (tet4 [1, 2, 3, 4]) 1 False
      (1 / 4, 1 / 4, 1 / 4) 1 1 0 1 = - 64 / 125"
    by (simp only: spec_second_deriv_3D_def Let_def tet4_values) (simp add: power2_eq_square)
  show ?thesis using code spec by (rule conjI)
qed



subsection \<open>Errors\<close>

text \<open>
  C8. In both dimensions and for the value, the first derivative and the second derivative,
  the overload that takes an element type instead of an element fails, whatever its
  arguments, with the error message that a rational basis requires the real element (the
  error the specification calls MissingGeometry).
\<close>

theorem ElemType_overloads_fail:
  "FE1_shape_ElemType t ord i p = Inl (Libmesh_error_msg real_element_msg) \<and>
   FE1_shape_deriv_ElemType t ord i j p = Inl (Libmesh_error_msg real_element_msg) \<and>
   FE1_shape_second_deriv_ElemType t ord i j p = Inl (Libmesh_error_msg real_element_msg) \<and>
   FE3_shape_ElemType t ord i p = Inl (Libmesh_error_msg real_element_msg) \<and>
   FE3_shape_deriv_ElemType t ord i j p = Inl (Libmesh_error_msg real_element_msg) \<and>
   FE3_shape_second_deriv_ElemType t ord i j p = Inl (Libmesh_error_msg real_element_msg)"
  by (simp add: FE1_shape_ElemType_def FE1_shape_deriv_ElemType_def
      FE1_shape_second_deriv_ElemType_def FE3_shape_ElemType_def FE3_shape_deriv_ElemType_def
      FE3_shape_second_deriv_ElemType_def)

text \<open>
  C9. In three dimensions the second derivative with a direction index outside \<open>0, \<dots>, 5\<close>
  fails with the error of \<^verbatim>\<open>libmesh_error()\<close> in the \<^verbatim>\<open>default\<close> branch of the
  \<^verbatim>\<open>switch\<close> (the error the specification calls InvalidDirectionIndex), for every element,
  order, shape index and point.
\<close>

theorem second_deriv_3D_invalid_direction:
  "5 < j \<Longrightarrow> FE3_shape_second_deriv fe elem ord i j p apl = Inl Libmesh_error"
  by (simp add: FE3_shape_second_deriv_def second_deriv_switch_def)

theorem second_deriv_3D_invalid_direction_witness:
  "(5::nat) < 6 \<and>
   FE3_shape_second_deriv bernstein_tet4 (Some (tet4 [1, 2, 3, 4])) 1 0 6 (1 / 4, 1 / 4, 1 / 4)
     False = Inl Libmesh_error"
  using second_deriv_3D_invalid_direction
    [of 6 bernstein_tet4 "Some (tet4 [1, 2, 3, 4])" 1 0 "(1 / 4, 1 / 4, 1 / 4)" False]
  by simp

end
